theory Spec2Isabelle
  imports Complex_Main "HOL-Library.AList"
begin

section \<open>Values and messages\<close>

text \<open>
  A Go \<^verbatim>\<open>[]byte\<close> and a Go \<^verbatim>\<open>string\<close> are both sequences of 8-bit characters.
\<close>

type_synonym bytes = string

text \<open>
  The values \<^verbatim>\<open>encoding/json\<close> stores in an \<^verbatim>\<open>any\<close>: \<^verbatim>\<open>nil\<close> for JSON null,
  \<^verbatim>\<open>bool\<close>, \<^verbatim>\<open>float64\<close> for every number, \<^verbatim>\<open>string\<close>, \<^verbatim>\<open>[]any\<close> and
  \<^verbatim>\<open>map[string]any\<close>. A finite \<^verbatim>\<open>float64\<close> is read as the real number it denotes; the
  gateway never computes with it. A map is an association list read with \<open>map_of\<close> and
  written with \<open>AList.update\<close>.
\<close>

datatype any =
    GoNil
  | GoBool bool
  | GoFloat64 real
  | GoString string
  | GoSlice "any list"
  | GoMap "(string \<times> any) list"

text \<open>
  \<^verbatim>\<open>type RpcRequest map[string]any\<close> (scytale2parodus.go, line 24). A Go map variable is
  either \<^verbatim>\<open>nil\<close> (\<open>None\<close>) or holds entries.
\<close>

type_synonym RpcRequest = "(string \<times> any) list option"

text \<open>Reading \<^verbatim>\<open>m[k]\<close>: the zero value of \<^verbatim>\<open>any\<close>, \<^verbatim>\<open>nil\<close>, when the key is absent or the map is nil.\<close>

definition map_index :: "RpcRequest \<Rightarrow> string \<Rightarrow> any" where
  "map_index m k =
     (case m of
        None \<Rightarrow> GoNil
      | Some kvs \<Rightarrow> (case map_of kvs k of None \<Rightarrow> GoNil | Some v \<Rightarrow> v))"

text \<open>
  Writing \<^verbatim>\<open>m[k] = v\<close>: Go panics with "assignment to entry in nil map" when the map is
  nil (\<open>None\<close> here).
\<close>

fun map_assign :: "RpcRequest \<Rightarrow> string \<Rightarrow> any \<Rightarrow> RpcRequest option" where
  "map_assign None k v = None"
| "map_assign (Some kvs) k v = Some (Some (AList.update k v kvs))"

text \<open>The comma-ok type assertion \<^verbatim>\<open>s, ok := x.(string)\<close>.\<close>

fun assert_string :: "any \<Rightarrow> string \<times> bool" where
  "assert_string (GoString s) = (s, True)"
| "assert_string GoNil = ('''', False)"
| "assert_string (GoBool b) = ('''', False)"
| "assert_string (GoFloat64 x) = ('''', False)"
| "assert_string (GoSlice xs) = ('''', False)"
| "assert_string (GoMap kvs) = ('''', False)"

text \<open>
  The fields of \<^verbatim>\<open>wrp.Message\<close> that the gateway sets or reads (lines 104 to 111 and
  line 154); every other field keeps its zero value. \<^verbatim>\<open>wrp.MessageType\<close> is an integer
  enumeration in which \<^verbatim>\<open>SimpleRequestResponseMessageType\<close> is 3.
\<close>

type_synonym MessageType = int

definition SimpleRequestResponseMessageType :: MessageType where
  "SimpleRequestResponseMessageType = 3"

record wrp_Message =
  Type :: MessageType
  Source :: string
  Destination :: string
  ContentType :: string
  TransactionUUID :: string
  Payload :: bytes

record http_Request =
  req_Method :: string
  req_URL :: string
  req_Header :: "(string \<times> string) list"
  req_Body :: bytes

record http_Response =
  StatusCode :: int
  Status :: string
  resp_Body :: bytes

text \<open>
  The inbound request as the handlers read it: the two route variables of
  \<^verbatim>\<open>/api/v1/{deviceID}/send/{service}\<close>, the body stream, the method and the path (percent
  escapes decoded). The body stream is an \<^verbatim>\<open>io.Reader\<close>: the bytes it delivers, whether it
  ends in a read error instead of end-of-file, and whether it reports its end in the same
  \<^verbatim>\<open>Read\<close> that delivers its last bytes or in a later one (the interface allows both).
\<close>

record request =
  vars_deviceID :: string
  vars_service :: string
  Body :: bytes
  Body_fails :: bool
  Body_end_with_data :: bool
  Method :: string
  URL_Path :: string

record DeviceServer =
  scytaleUrl :: string
  scytaleAuth :: string

section \<open>The collaborators of one request\<close>

text \<open>
  Everything outside the repository that a request meets, as the calls the code makes:
  \<^item> \<open>uuid_New_String\<close>: the value of \<^verbatim>\<open>uuid.New().String()\<close> for this request;
  \<^item> \<open>json_decode\<close>: the document a body denotes, as the value \<^verbatim>\<open>encoding/json\<close> builds for it,
    \<open>None\<close> when the body is not JSON;
  \<^item> \<open>json_Marshal\<close>, \<open>wrp_Encode\<close>, \<open>wrp_Decode\<close>: the serializers, \<open>None\<close> on error;
  \<^item> \<open>url_Parse_ok\<close>: whether \<^verbatim>\<open>http.NewRequest\<close> accepts the URL;
  \<^item> \<open>client_Do\<close>: the backend's reply, \<open>None\<close> on a transport error;
  \<^item> \<open>limiter_Wait\<close>: the error \<^verbatim>\<open>limiter.Wait(r.Context())\<close> returns, if any;
  \<^item> \<open>ctx_Err\<close>: the value of \<^verbatim>\<open>r.Context().Err()\<close> when the middleware reads it.
\<close>

record world =
  uuid_New_String :: string
  json_decode :: "bytes \<Rightarrow> any option"
  json_Marshal :: "RpcRequest \<Rightarrow> bytes option"
  wrp_Encode :: "wrp_Message \<Rightarrow> bytes option"
  url_Parse_ok :: "string \<Rightarrow> bool"
  client_Do :: "http_Request \<Rightarrow> http_Response option"
  wrp_Decode :: "bytes \<Rightarrow> wrp_Message option"
  limiter_Wait :: "string option"
  ctx_Err :: "string option"

section \<open>The response writer\<close>

text \<open>
  What the connection holds for the client: whether the status line of the final response
  has been written, its status code, the header fields, the body bytes, and the status codes
  of the interim (1xx) responses written before it.
\<close>

record reply =
  wroteHeader :: bool
  status :: int
  header :: "(string \<times> string) list"
  written :: bytes
  interim :: "int list"

definition no_reply :: reply where
  "no_reply = \<lparr>wroteHeader = False, status = 0, header = [], written = [], interim = []\<rparr>"

text \<open>
  An \<^verbatim>\<open>http.ResponseWriter\<close> is an interface value: either the server's connection, or the
  \<^verbatim>\<open>responseWriter\<close> struct of main.go (lines 202 to 205), which embeds another writer
  and a captured status code. Method calls dispatch on the constructor.
\<close>

datatype writer =
    Conn reply
  | responseWriter (ResponseWriter: writer) (statusCode: int)

text \<open>
  \<^verbatim>\<open>w.Header().Set(k, v)\<close>: \<^verbatim>\<open>responseWriter\<close> promotes the embedded method. Header fields
  set after the status line went out are not sent.
\<close>

fun Header_Set :: "string \<Rightarrow> string \<Rightarrow> writer \<Rightarrow> writer" where
  "Header_Set k v (Conn c) =
     Conn (if wroteHeader c then c else c\<lparr>header := AList.update k v (header c)\<rparr>)"
| "Header_Set k v (responseWriter w sc) = responseWriter (Header_Set k v w) sc"

definition StatusSwitchingProtocols :: int where "StatusSwitchingProtocols = 101"
definition StatusOK :: int where "StatusOK = 200"
definition StatusNoContent :: int where "StatusNoContent = 204"
definition StatusNotModified :: int where "StatusNotModified = 304"
definition StatusBadRequest :: int where "StatusBadRequest = 400"
definition StatusTooManyRequests :: int where "StatusTooManyRequests = 429"
definition StatusInternalServerError :: int where "StatusInternalServerError = 500"
definition StatusBadGateway :: int where "StatusBadGateway = 502"
definition StatusServiceUnavailable :: int where "StatusServiceUnavailable = 503"

text \<open>
  \<^verbatim>\<open>WriteHeader\<close> of the connection (net/http): a call after the final status line is ignored;
  otherwise a code below 100 or above 999 panics (\<open>None\<close>); a code from 100 to 199 other than
  101 is written as an interim response and leaves the final status open; any other code
  becomes the final status. \<^verbatim>\<open>responseWriter.WriteHeader\<close> (main.go, lines 207 to 210) records
  the code, then passes it on.
\<close>

fun WriteHeader :: "int \<Rightarrow> writer \<Rightarrow> writer option" where
  "WriteHeader code (Conn c) =
     (if wroteHeader c then Some (Conn c)
      else if code < 100 \<or> code > 999 then None
      else if code \<ge> 100 \<and> code \<le> 199 \<and> code \<noteq> StatusSwitchingProtocols then
        Some (Conn (c\<lparr>interim := interim c @ [code]\<rparr>))
      else Some (Conn (c\<lparr>wroteHeader := True, status := code\<rparr>)))"
| "WriteHeader code (responseWriter w sc) =
     (case WriteHeader code w of
        None \<Rightarrow> None
      | Some w' \<Rightarrow> Some (responseWriter w' code))"

text \<open>\<^verbatim>\<open>bodyAllowedForStatus\<close> of net/http: no body with a 1xx, 204 or 304 status.\<close>

definition bodyAllowedForStatus :: "int \<Rightarrow> bool" where
  "bodyAllowedForStatus st =
     (if st \<ge> 100 \<and> st \<le> 199 then False
      else if st = StatusNoContent then False
      else if st = StatusNotModified then False
      else True)"

text \<open>
  \<^verbatim>\<open>Write\<close> of the connection: writes status 200 first when no final status went out yet;
  then bytes are appended only when there are any and the status allows a body (otherwise
  the call returns \<^verbatim>\<open>ErrBodyNotAllowed\<close> and sends nothing). \<^verbatim>\<open>responseWriter.Write\<close>
  (main.go, lines 212 to 217) calls its own \<^verbatim>\<open>WriteHeader\<close> when its captured code is 0, then
  writes to the embedded writer. \<open>None\<close> is a panic, which only \<^verbatim>\<open>WriteHeader\<close> can raise.
\<close>

lemma size_WriteHeader: "WriteHeader code w = Some w' \<Longrightarrow> size w' = size w"
  by (induction w arbitrary: w') (auto split: if_splits option.splits)

function Write :: "bytes \<Rightarrow> writer \<Rightarrow> writer option" where
  "Write b (Conn c) =
     (let c' = (if wroteHeader c then c else c\<lparr>wroteHeader := True, status := StatusOK\<rparr>)
      in if b \<noteq> [] \<and> bodyAllowedForStatus (status c')
         then Some (Conn (c'\<lparr>written := written c' @ b\<rparr>))
         else Some (Conn c'))"
| "Write b (responseWriter w sc) =
     (if sc = 0 then
        (case WriteHeader StatusOK w of
           None \<Rightarrow> None
         | Some w' \<Rightarrow>
             (case Write b w' of
                None \<Rightarrow> None
              | Some w'' \<Rightarrow> Some (responseWriter w'' StatusOK)))
      else
        (case Write b w of
           None \<Rightarrow> None
         | Some w' \<Rightarrow> Some (responseWriter w' sc)))"
  by pat_completeness auto
termination
  by (relation "measure (\<lambda>(b, w). size w)") (simp_all add: size_WriteHeader)

text \<open>
  The error \<^verbatim>\<open>Write\<close> returns, as far as the status decides it: \<^verbatim>\<open>ErrBodyNotAllowed\<close> when
  there are bytes and the status allows no body. \<^verbatim>\<open>responseWriter.Write\<close> returns the error
  of the embedded writer.
\<close>

fun Write_err :: "bytes \<Rightarrow> writer \<Rightarrow> bool" where
  "Write_err b (Conn c) =
     (b \<noteq> [] \<and> \<not> bodyAllowedForStatus (if wroteHeader c then status c else StatusOK))"
| "Write_err b (responseWriter w sc) = Write_err b w"

text \<open>
  \<^verbatim>\<open>http.Error(w, msg, code)\<close>: sets the two header fields, writes the status code, then
  the message and a newline; the error of the write is dropped.
\<close>

definition http_Error :: "writer \<Rightarrow> string \<Rightarrow> int \<Rightarrow> writer option" where
  "http_Error w msg code =
     (case WriteHeader code
             (Header_Set ''X-Content-Type-Options'' ''nosniff''
               (Header_Set ''Content-Type'' ''text/plain; charset=utf-8'' w)) of
        None \<Rightarrow> None
      | Some w' \<Rightarrow> Write (msg @ [CHR 0x0A]) w')"

text \<open>What the client sees of a writer: the reply of the connection underneath.\<close>

fun client_view :: "writer \<Rightarrow> reply" where
  "client_view (Conn c) = c"
| "client_view (responseWriter w sc) = client_view w"

section \<open>The send handler (scytale2parodus.go)\<close>

definition MaxBodySize :: nat where
  "MaxBodySize = 2 ^ 20"

text \<open>
  \<^verbatim>\<open>deviceIdRegex = regexp.MustCompile(`^[0-9A-Fa-f]{12}$`)\<close> (line 34): in Go's syntax
  \<^verbatim>\<open>$\<close> without the multi-line flag matches at the end of the text only, so the pattern
  matches exactly the strings of twelve characters of the class.
\<close>

definition hex_class :: "char \<Rightarrow> bool" where
  "hex_class c = (c \<in> set ''0123456789ABCDEFabcdef'')"

definition deviceIdRegex_MatchString :: "string \<Rightarrow> bool" where
  "deviceIdRegex_MatchString s = (length s = 12 \<and> list_all hex_class s)"

text \<open>
  \<^verbatim>\<open>io.ReadAll(io.LimitReader(r.Body, MaxBodySize))\<close> (lines 67 and 68). The limited reader
  never asks the stream for more than is left of the limit, hands on what each \<^verbatim>\<open>Read\<close> of
  the stream returns, bytes and error together, and reports end-of-file itself once the limit
  is used up, without touching the stream again. So the stream's own end is seen when the
  stream is shorter than the limit, and also when it is exactly as long as the limit and
  reports its end together with its last bytes; \<^verbatim>\<open>ReadAll\<close> fails when that end is an error.
\<close>

definition ReadAll_LimitReader :: "request \<Rightarrow> bytes option" where
  "ReadAll_LimitReader r =
     (if Body_fails r \<and>
         (length (Body r) < MaxBodySize \<or>
          length (Body r) = MaxBodySize \<and> Body_end_with_data r)
      then None
      else Some (take MaxBodySize (Body r)))"

text \<open>
  \<^verbatim>\<open>json.Unmarshal(body, &deviceRequest)\<close> with \<^verbatim>\<open>deviceRequest\<close> a nil \<^verbatim>\<open>RpcRequest\<close> (lines
  76 and 77). By the contract of \<^verbatim>\<open>encoding/json\<close>: a JSON object fills a freshly allocated
  map; JSON null "unmarshals into an interface, map, pointer, or slice by setting that Go
  value to nil" and is no error; any other JSON value is an \<^verbatim>\<open>UnmarshalTypeError\<close>; text
  that is not JSON is a syntax error. \<open>None\<close> is the error return.
\<close>

definition json_Unmarshal :: "world \<Rightarrow> bytes \<Rightarrow> RpcRequest option" where
  "json_Unmarshal W body =
     (case json_decode W body of
        None \<Rightarrow> None
      | Some GoNil \<Rightarrow> Some None
      | Some (GoMap kvs) \<Rightarrow> Some (Some kvs)
      | Some (GoBool b) \<Rightarrow> None
      | Some (GoFloat64 x) \<Rightarrow> None
      | Some (GoString s) \<Rightarrow> None
      | Some (GoSlice xs) \<Rightarrow> None)"

text \<open>
  Lines 85 to 89: when \<^verbatim>\<open>deviceRequest["jsonrpc"]\<close> is a string and \<^verbatim>\<open>deviceRequest["id"]\<close>
  is not a string or is the empty string, \<^verbatim>\<open>deviceRequest["id"] = requestID\<close>. \<open>None\<close> is the
  panic of an assignment to a nil map.
\<close>

definition set_request_id :: "string \<Rightarrow> RpcRequest \<Rightarrow> RpcRequest option" where
  "set_request_id requestID deviceRequest =
     (if snd (assert_string (map_index deviceRequest ''jsonrpc'')) then
        (case assert_string (map_index deviceRequest ''id'') of
           (id', ok) \<Rightarrow>
             if \<not> ok \<or> id' = '''' then map_assign deviceRequest ''id'' (GoString requestID)
             else Some deviceRequest)
      else Some deviceRequest)"

text \<open>\<^verbatim>\<open>http.NewRequest("POST", url, body)\<close> (line 119): fails when the URL does not parse.\<close>

definition http_NewRequest :: "world \<Rightarrow> string \<Rightarrow> string \<Rightarrow> bytes \<Rightarrow> http_Request option" where
  "http_NewRequest W method url body =
     (if url_Parse_ok W url
      then Some \<lparr>req_Method = method, req_URL = url, req_Header = [], req_Body = body\<rparr>
      else None)"

definition req_Header_Set :: "string \<Rightarrow> string \<Rightarrow> http_Request \<Rightarrow> http_Request" where
  "req_Header_Set k v q = q\<lparr>req_Header := AList.update k v (req_Header q)\<rparr>"

datatype level = DebugLevel | WarnLevel | ErrorLevel

text \<open>
  What one run of a handler leaves behind: the writer, the log entries in order (level and
  message), and how far the run got: the request object after lines 85 to 89, the envelope
  of line 104, the request handed to \<^verbatim>\<open>client.Do\<close>, the backend's reply, whether the decoder
  ran, and whether the run ended in a panic.
\<close>

record result =
  out_writer :: writer
  out_log :: "(level \<times> string) list"
  out_deviceRequest :: "RpcRequest option"
  out_wrpRequest :: "wrp_Message option"
  out_postReq :: "http_Request option"
  out_resp :: "http_Response option"
  out_decoded :: bool
  out_panicked :: bool

definition returned :: "writer \<Rightarrow> result" where
  "returned w =
     \<lparr>out_writer = w, out_log = [], out_deviceRequest = None, out_wrpRequest = None,
      out_postReq = None, out_resp = None, out_decoded = False, out_panicked = False\<rparr>"

text \<open>
  A call \<^verbatim>\<open>http.Error(w, msg, code)\<close> followed by \<^verbatim>\<open>return\<close>: the run ends with the writer
  the call leaves, or in the panic the call raises.
\<close>

definition reply_Error :: "result \<Rightarrow> writer \<Rightarrow> string \<Rightarrow> int \<Rightarrow> result" where
  "reply_Error res w msg code =
     (case http_Error w msg code of
        None \<Rightarrow> res\<lparr>out_panicked := True\<rparr>
      | Some w' \<Rightarrow> res\<lparr>out_writer := w'\<rparr>)"

text \<open>Lines 138 to 166: from the backend's reply to the client's.\<close>

definition translate_reply :: "world \<Rightarrow> writer \<Rightarrow> http_Response \<Rightarrow> result \<Rightarrow> result" where
  "translate_reply W w resp res =
     (if StatusCode resp < 200 \<or> StatusCode resp \<ge> 400 then
        reply_Error
          (res\<lparr>out_log := out_log res @ [(ErrorLevel, ''Scytale returned invalid status'')]\<rparr>)
          w (''Scytale returned invalid status: '' @ Status resp) (StatusCode resp)
      else
        (case wrp_Decode W (resp_Body resp) of
           None \<Rightarrow>
             reply_Error
               (res\<lparr>out_decoded := True,
                    out_log := out_log res @
                      [(ErrorLevel, ''Failed to decode Msgpack response'')]\<rparr>)
               w ''Failed to decode Scytale response'' StatusBadRequest
         | Some wrpResponse \<Rightarrow>
             if length (Payload wrpResponse) = 0 then
               reply_Error
                 (res\<lparr>out_decoded := True,
                      out_log := out_log res @
                        [(DebugLevel, ''Received WRP response''),
                         (WarnLevel, ''Empty payload in Scytale response'')]\<rparr>)
                 w ''Empty response from Scytale'' StatusBadGateway
             else
               (let w1 = Header_Set ''Content-Type'' ''application/json'' w;
                    res = res\<lparr>out_decoded := True,
                              out_log := out_log res @ [(DebugLevel, ''Received WRP response'')]\<rparr>
                in case Write (Payload wrpResponse) w1 of
                     None \<Rightarrow> res\<lparr>out_panicked := True\<rparr>
                   | Some w2 \<Rightarrow>
                       if Write_err (Payload wrpResponse) w1 then
                         res\<lparr>out_writer := w2,
                             out_log := out_log res @
                               [(ErrorLevel, ''Failed to write response'')]\<rparr>
                       else res\<lparr>out_writer := w2\<rparr>)))"

text \<open>Lines 91 to 136: the envelope, its encoding and the call of the backend.\<close>

definition forward :: "world \<Rightarrow> DeviceServer \<Rightarrow> writer \<Rightarrow> string \<Rightarrow> string \<Rightarrow> string \<Rightarrow>
    RpcRequest \<Rightarrow> result" where
  "forward W u w deviceID service requestID deviceRequest =
     (let destination = ''mac:'' @ deviceID @ ''/'' @ service;
          res = (returned w)\<lparr>out_deviceRequest := Some deviceRequest\<rparr>
      in case json_Marshal W deviceRequest of
           None \<Rightarrow>
             reply_Error (res\<lparr>out_log := [(ErrorLevel, ''Failed to marshal JSON'')]\<rparr>)
               w ''Failed to marshal JSON'' StatusInternalServerError
         | Some wrpPayload \<Rightarrow>
             (let wrpRequest =
                    \<lparr>Type = SimpleRequestResponseMessageType,
                     Source = ''scytale2parodus'',
                     Destination = destination,
                     ContentType = ''application/json'',
                     TransactionUUID = requestID,
                     Payload = wrpPayload\<rparr>;
                  res = res\<lparr>out_wrpRequest := Some wrpRequest\<rparr>
              in case wrp_Encode W wrpRequest of
                   None \<Rightarrow>
                     reply_Error
                       (res\<lparr>out_log := [(ErrorLevel, ''Failed to encode WRP Msgpack'')]\<rparr>)
                       w ''Failed to encode WRP Msgpack'' StatusInternalServerError
                 | Some wrpReqBody \<Rightarrow>
                     (case http_NewRequest W ''POST'' (scytaleUrl u) wrpReqBody of
                        None \<Rightarrow>
                          reply_Error
                            (res\<lparr>out_log := [(ErrorLevel, ''Failed to create HTTP request'')]\<rparr>)
                            w ''Failed to post to Scytale'' StatusServiceUnavailable
                      | Some q \<Rightarrow>
                          (let postReq =
                                 req_Header_Set ''Authorization'' (''Basic '' @ scytaleAuth u)
                                   (req_Header_Set ''Accept'' ''application/msgpack''
                                     (req_Header_Set ''Content-Type'' ''application/msgpack'' q));
                               res = res\<lparr>out_postReq := Some postReq,
                                         out_log := [(DebugLevel, ''Sending WRP request'')]\<rparr>
                           in case client_Do W postReq of
                                None \<Rightarrow>
                                  reply_Error
                                    (res\<lparr>out_log := out_log res @
                                          [(ErrorLevel, ''Failed to post to Scytale'')]\<rparr>)
                                    w ''Failed to post to Scytale'' StatusServiceUnavailable
                              | Some resp \<Rightarrow>
                                  translate_reply W w resp (res\<lparr>out_resp := Some resp\<rparr>)))))"

text \<open>\<^verbatim>\<open>func (u *DeviceServer) PostCallHandler\<close> (lines 54 to 166).\<close>

definition PostCallHandler :: "world \<Rightarrow> DeviceServer \<Rightarrow> writer \<Rightarrow> request \<Rightarrow> result" where
  "PostCallHandler W u w r =
     (let deviceID = vars_deviceID r;
          service = vars_service r
      in if \<not> deviceIdRegex_MatchString deviceID then
           reply_Error ((returned w)\<lparr>out_log := [(ErrorLevel, ''Invalid device ID format'')]\<rparr>)
             w ''Invalid device ID: must be a 12-character hexadecimal MAC address''
             StatusBadRequest
         else
           (case ReadAll_LimitReader r of
              None \<Rightarrow>
                reply_Error
                  ((returned w)\<lparr>out_log := [(ErrorLevel, ''Failed to read request body'')]\<rparr>)
                  w ''Failed to read request body'' StatusBadRequest
            | Some body \<Rightarrow>
                (case json_Unmarshal W body of
                   None \<Rightarrow>
                     reply_Error
                       ((returned w)\<lparr>out_log := [(ErrorLevel, ''Failed to unmarshal JSON'')]\<rparr>)
                       w ''Failed to parse JSON'' StatusBadRequest
                 | Some deviceRequest \<Rightarrow>
                     (let requestID = uuid_New_String W
                      in case set_request_id requestID deviceRequest of
                           None \<Rightarrow> (returned w)\<lparr>out_panicked := True\<rparr>
                         | Some deviceRequest' \<Rightarrow>
                             forward W u w deviceID service requestID deviceRequest'))))"

section \<open>The middleware and the route (main.go)\<close>

text \<open>
  \<^verbatim>\<open>rateLimitMiddleware\<close> (lines 122 to 136): when \<^verbatim>\<open>limiter.Wait\<close> returns an error, the
  middleware returns without writing if the request's context reports an error, and answers
  429 otherwise; without an error it calls the next handler.
\<close>

definition rateLimitMiddleware ::
    "world \<Rightarrow> (writer \<Rightarrow> request \<Rightarrow> result) \<Rightarrow> writer \<Rightarrow> request \<Rightarrow> result" where
  "rateLimitMiddleware W next w r =
     (case limiter_Wait W of
        Some err \<Rightarrow>
          if ctx_Err W \<noteq> None then returned w
          else
            reply_Error ((returned w)\<lparr>out_log := [(ErrorLevel, ''Rate limit exceeded'')]\<rparr>)
              w ''Too Many Requests'' StatusTooManyRequests
      | None \<Rightarrow> next w r)"

text \<open>\<^verbatim>\<open>fmt.Sprint\<close> of an \<^verbatim>\<open>int\<close>: its decimal digits, with a minus sign when negative.\<close>

fun decimal :: "nat \<Rightarrow> string" where
  "decimal n =
     (if n < 10 then [''0123456789'' ! n]
      else decimal (n div 10) @ [''0123456789'' ! (n mod 10)])"

declare decimal.simps [simp del]

definition fmt_Sprint :: "int \<Rightarrow> string" where
  "fmt_Sprint i = (if i < 0 then CHR ''-'' # decimal (nat (- i)) else decimal (nat i))"

text \<open>
  The two metric families of lines 36 to 50: the observations of the histogram in the order
  they were made, and the counter's value under each label vector.
\<close>

record metrics =
  requestDuration :: "(string list \<times> real) list"
  requestCounter :: "string list \<Rightarrow> nat"

text \<open>
  \<^verbatim>\<open>utf8.ValidString\<close>: the bytes are a sequence of well-formed UTF-8 encodings (no overlong
  forms, no surrogates, nothing above U+10FFFF).
\<close>

definition cont_byte :: "char \<Rightarrow> bool" where
  "cont_byte c = (0x80 \<le> (of_char c :: nat) \<and> (of_char c :: nat) \<le> 0xBF)"

fun utf8_ValidString :: "string \<Rightarrow> bool" where
  "utf8_ValidString [] = True"
| "utf8_ValidString (c # cs) =
     (let b = (of_char c :: nat) in
      if b < 0x80 then utf8_ValidString cs
      else if 0xC2 \<le> b \<and> b \<le> 0xDF then
        (case cs of
           c1 # r \<Rightarrow> cont_byte c1 \<and> utf8_ValidString r
         | _ \<Rightarrow> False)
      else if 0xE0 \<le> b \<and> b \<le> 0xEF then
        (case cs of
           c1 # c2 # r \<Rightarrow>
             (if b = 0xE0 then 0xA0 \<le> (of_char c1 :: nat) \<and> (of_char c1 :: nat) \<le> 0xBF
              else if b = 0xED then 0x80 \<le> (of_char c1 :: nat) \<and> (of_char c1 :: nat) \<le> 0x9F
              else cont_byte c1)
             \<and> cont_byte c2 \<and> utf8_ValidString r
         | _ \<Rightarrow> False)
      else if 0xF0 \<le> b \<and> b \<le> 0xF4 then
        (case cs of
           c1 # c2 # c3 # r \<Rightarrow>
             (if b = 0xF0 then 0x90 \<le> (of_char c1 :: nat) \<and> (of_char c1 :: nat) \<le> 0xBF
              else if b = 0xF4 then 0x80 \<le> (of_char c1 :: nat) \<and> (of_char c1 :: nat) \<le> 0x8F
              else cont_byte c1)
             \<and> cont_byte c2 \<and> cont_byte c3 \<and> utf8_ValidString r
         | _ \<Rightarrow> False)
      else False)"

text \<open>
  \<^verbatim>\<open>WithLabelValues\<close> of the two vectors (client_golang): four values for the four label
  names, each of them valid UTF-8, or the call panics.
\<close>

definition WithLabelValues_ok :: "string list \<Rightarrow> bool" where
  "WithLabelValues_ok labels = (length labels = 4 \<and> list_all utf8_ValidString labels)"

definition Observe :: "string list \<Rightarrow> real \<Rightarrow> metrics \<Rightarrow> metrics" where
  "Observe labels x M = M\<lparr>requestDuration := requestDuration M @ [(labels, x)]\<rparr>"

definition Inc :: "string list \<Rightarrow> metrics \<Rightarrow> metrics" where
  "Inc labels M = M\<lparr>requestCounter := (requestCounter M)(labels := requestCounter M labels + 1)\<rparr>"

text \<open>
  \<^verbatim>\<open>metricsMiddleware\<close> (lines 139 to 151). \<open>rnd\<close> is the value of \<^verbatim>\<open>rand.Float64()\<close> and
  \<open>seconds\<close> the value of \<^verbatim>\<open>time.Since(start).Seconds()\<close>, both read as the real numbers
  they denote; no \<^verbatim>\<open>float64\<close> lies between one tenth and the \<^verbatim>\<open>float64\<close> nearest to it, so
  the comparison with \<^verbatim>\<open>0.1\<close> is the comparison with one tenth. The next handler runs on
  a \<^verbatim>\<open>responseWriter\<close> around \<open>w\<close>; the result hands \<open>w\<close> back as the handler left it. A panic
  of the next handler leaves the middleware before the sample is drawn; a panic of
  \<^verbatim>\<open>WithLabelValues\<close> on line 147 leaves it before anything is recorded.
\<close>

definition metricsMiddleware ::
    "string \<Rightarrow> (writer \<Rightarrow> request \<Rightarrow> result) \<Rightarrow> real \<Rightarrow> real \<Rightarrow> metrics \<Rightarrow> writer \<Rightarrow> request
      \<Rightarrow> result \<times> metrics" where
  "metricsMiddleware handlerName next rnd seconds M w r =
     (let rw = responseWriter w StatusOK;
          res = next rw r;
          res' = res\<lparr>out_writer := ResponseWriter (out_writer res)\<rparr>
      in if out_panicked res then (res', M)
         else if rnd < 1 / 10 then
           (let duration = seconds;
                labels = [handlerName, Method r, fmt_Sprint (statusCode (out_writer res)),
                          URL_Path r]
            in if WithLabelValues_ok labels
               then (res', Inc labels (Observe labels duration M))
               else (res'\<lparr>out_panicked := True\<rparr>, M))
         else (res', M))"

text \<open>The route of line 161.\<close>

definition send_route ::
    "world \<Rightarrow> DeviceServer \<Rightarrow> real \<Rightarrow> real \<Rightarrow> metrics \<Rightarrow> writer \<Rightarrow> request \<Rightarrow> result \<times> metrics" where
  "send_route W u rnd seconds M w r =
     metricsMiddleware ''send'' (rateLimitMiddleware W (PostCallHandler W u)) rnd seconds M w r"

text \<open>
  What the server does with the reply when the route returns (net/http, \<^verbatim>\<open>conn.serve\<close>): after
  a normal return it finishes the response, with status 200 if the handler wrote none, and
  flushes it; after a panic it closes the connection without finishing the response, so the
  client gets no complete reply (\<open>None\<close>).
\<close>

definition finishRequest :: "reply \<Rightarrow> reply" where
  "finishRequest c = (if wroteHeader c then c else c\<lparr>wroteHeader := True, status := StatusOK\<rparr>)"

definition sent :: "result \<Rightarrow> reply option" where
  "sent res =
     (if out_panicked res then None else Some (finishRequest (client_view (out_writer res))))"

section \<open>A concrete setting\<close>

text \<open>
  One instance of the collaborators, small enough to evaluate: a decoder and a marshaller that
  know a handful of bodies, a framing that prefixes the payload, and a backend whose reply
  is fixed. The marshaller's outputs are those of \<^verbatim>\<open>json.Marshal\<close> on the same maps (keys
  sorted, a nil map as \<^verbatim>\<open>null\<close>).
\<close>

definition example_uuid :: string where
  "example_uuid = ''6ba7b810-9dad-41d1-80b4-00c04fd430c8''"

definition example_decode :: "bytes \<Rightarrow> any option" where
  \<open>example_decode =
     map_of
       [(''null'', GoNil),
        (''[1]'', GoSlice [GoFloat64 1]),
        (''{"method":"x"}'', GoMap [(''method'', GoString ''x'')]),
        (''{"jsonrpc":"2.0","method":"x"}'',
           GoMap [(''jsonrpc'', GoString ''2.0''), (''method'', GoString ''x'')]),
        (''{"jsonrpc":"2.0","id":7}'',
           GoMap [(''jsonrpc'', GoString ''2.0''), (''id'', GoFloat64 7)])]\<close>

definition example_Marshal :: "RpcRequest \<Rightarrow> bytes option" where
  \<open>example_Marshal =
     map_of
       [(None, ''null''),
        (Some [(''method'', GoString ''x'')], ''{"method":"x"}''),
        (Some [(''jsonrpc'', GoString ''2.0''), (''method'', GoString ''x''),
               (''id'', GoString example_uuid)],
           ''{"id":"'' @ example_uuid @ ''","jsonrpc":"2.0","method":"x"}''),
        (Some [(''jsonrpc'', GoString ''2.0''), (''id'', GoFloat64 7)],
           ''{"id":7,"jsonrpc":"2.0"}''),
        (Some [(''jsonrpc'', GoString ''2.0''), (''id'', GoString example_uuid)],
           ''{"id":"'' @ example_uuid @ ''","jsonrpc":"2.0"}'')]\<close>

definition example_Encode :: "wrp_Message \<Rightarrow> bytes option" where
  "example_Encode m = Some (''wrp:'' @ Payload m)"

definition example_Decode :: "bytes \<Rightarrow> wrp_Message option" where
  "example_Decode b =
     (if take 4 b = ''wrp:'' then
        Some \<lparr>Type = SimpleRequestResponseMessageType,
              Source = ''mac:001122334455/Tasker'',
              Destination = ''scytale2parodus'',
              ContentType = ''application/json'',
              TransactionUUID = example_uuid,
              Payload = drop 4 b\<rparr>
      else None)"

definition example_world :: "http_Response option \<Rightarrow> world" where
  "example_world backend =
     \<lparr>uuid_New_String = example_uuid,
      json_decode = example_decode,
      json_Marshal = example_Marshal,
      wrp_Encode = example_Encode,
      url_Parse_ok = (\<lambda>url. url \<noteq> []),
      client_Do = (\<lambda>q. backend),
      wrp_Decode = example_Decode,
      limiter_Wait = None,
      ctx_Err = None\<rparr>"

definition example_server :: DeviceServer where
  "example_server =
     \<lparr>scytaleUrl = ''http://scytale:6300/api/v2/device'', scytaleAuth = ''dXNlcjpwYXNz''\<rparr>"

definition example_request :: "string \<Rightarrow> bytes \<Rightarrow> request" where
  "example_request deviceID b =
     \<lparr>vars_deviceID = deviceID, vars_service = ''Tasker'', Body = b, Body_fails = False,
      Body_end_with_data = True,
      Method = ''POST'', URL_Path = ''/api/v1/'' @ deviceID @ ''/send/Tasker''\<rparr>"

text \<open>
  The request \<^verbatim>\<open>POST /api/v1/001122334455/send/%ff\<close>: the route matches, the service
  variable and the last segment of the decoded path are the single byte FF.
\<close>

definition example_request_ff :: "bytes \<Rightarrow> request" where
  "example_request_ff b =
     \<lparr>vars_deviceID = ''001122334455'', vars_service = [CHR 0xFF], Body = b, Body_fails = False,
      Body_end_with_data = True,
      Method = ''POST'', URL_Path = ''/api/v1/001122334455/send/'' @ [CHR 0xFF]\<rparr>"

definition example_ok :: http_Response where
  \<open>example_ok = \<lparr>StatusCode = 200, Status = ''200 OK'', resp_Body = ''wrp:{"result":1}''\<rparr>\<close>

definition example_empty :: http_Response where
  "example_empty = \<lparr>StatusCode = 200, Status = ''200 OK'', resp_Body = ''wrp:''\<rparr>"

definition example_garbled :: http_Response where
  "example_garbled = \<lparr>StatusCode = 200, Status = ''200 OK'', resp_Body = ''not msgpack''\<rparr>"

definition example_101 :: http_Response where
  "example_101 =
     \<lparr>StatusCode = 101, Status = ''101 Switching Protocols'', resp_Body = []\<rparr>"

definition example_099 :: http_Response where
  "example_099 = \<lparr>StatusCode = 99, Status = ''099 Odd'', resp_Body = []\<rparr>"

definition example_500 :: http_Response where
  "example_500 =
     \<lparr>StatusCode = 500, Status = ''500 Internal Server Error'', resp_Body = []\<rparr>"

definition example_metrics :: metrics where
  "example_metrics = \<lparr>requestDuration = [], requestCounter = (\<lambda>labels. 0)\<rparr>"

section \<open>Facts about the writer\<close>

lemma WriteHeader_None_iff:
  "WriteHeader code w = None \<longleftrightarrow> \<not> wroteHeader (client_view w) \<and> (code < 100 \<or> code > 999)"
  by (induction w) (auto split: option.splits)

lemma client_view_Header_Set:
  "client_view (Header_Set k v w) =
     (if wroteHeader (client_view w) then client_view w
      else (client_view w)\<lparr>header := AList.update k v (header (client_view w))\<rparr>)"
  by (induction w) simp_all

lemma client_view_WriteHeader:
  "WriteHeader code w = Some w' \<Longrightarrow>
   client_view w' =
     (if wroteHeader (client_view w) then client_view w
      else if 100 \<le> code \<and> code \<le> 199 \<and> code \<noteq> StatusSwitchingProtocols
        then (client_view w)\<lparr>interim := interim (client_view w) @ [code]\<rparr>
      else (client_view w)\<lparr>wroteHeader := True, status := code\<rparr>)"
  by (induction w arbitrary: w') (auto split: option.splits if_splits)

lemma Write_not_None: "Write b w \<noteq> None"
proof (induction b w rule: Write.induct)
  case (1 b c)
  then show ?case by (simp add: Let_def)
next
  case (2 b w sc)
  show ?case
  proof (cases "sc = 0")
    case True
    have "WriteHeader StatusOK w \<noteq> None"
      by (simp add: WriteHeader_None_iff StatusOK_def)
    then obtain w' where w': "WriteHeader StatusOK w = Some w'" by auto
    with 2(1) [OF True w'] True show ?thesis by (auto split: option.splits)
  next
    case False
    with 2(2) [OF False] show ?thesis by (auto split: option.splits)
  qed
qed

lemma client_view_Write:
  "Write b w = Some w' \<Longrightarrow>
   client_view w' =
     (let c = (if wroteHeader (client_view w) then client_view w
               else (client_view w)\<lparr>wroteHeader := True, status := StatusOK\<rparr>)
      in if b \<noteq> [] \<and> bodyAllowedForStatus (status c) then c\<lparr>written := written c @ b\<rparr> else c)"
proof (induction b w arbitrary: w' rule: Write.induct)
  case (1 b c)
  then show ?case by (auto simp: Let_def split: if_splits)
next
  case (2 b w sc)
  show ?case
  proof (cases "sc = 0")
    case True
    with 2(3) obtain w1 w2 where w1: "WriteHeader StatusOK w = Some w1"
      and w2: "Write b w1 = Some w2" and w': "w' = responseWriter w2 StatusOK"
      by (auto split: option.splits)
    have v1: "client_view w1 =
        (if wroteHeader (client_view w) then client_view w
         else (client_view w)\<lparr>wroteHeader := True, status := StatusOK\<rparr>)"
      using client_view_WriteHeader [OF w1] by (simp add: StatusOK_def)
    from 2(1) [OF True w1 w2] v1 w' show ?thesis
      by (auto simp: Let_def)
  next
    case False
    with 2(3) obtain w1 where w1: "Write b w = Some w1" and w': "w' = responseWriter w1 sc"
      by (auto split: option.splits)
    from 2(2) [OF False w1] w' show ?thesis by simp
  qed
qed

lemma Write_err_view:
  "Write_err b w =
     (b \<noteq> [] \<and> \<not> bodyAllowedForStatus
        (if wroteHeader (client_view w) then status (client_view w) else StatusOK))"
  by (induction w) simp_all

text \<open>
  \<^verbatim>\<open>http.Error\<close> on a writer that has sent no status yet, with a code that is written as the
  final status (101, or 200 to 999).
\<close>

lemma http_Error_final:
  assumes "\<not> wroteHeader (client_view w)"
      and "code = 101 \<or> 200 \<le> code \<and> code \<le> 999"
  shows "\<exists>w'. http_Error w msg code = Some w'
          \<and> client_view w' =
              (client_view w)
                \<lparr>header := AList.update ''X-Content-Type-Options'' ''nosniff''
                            (AList.update ''Content-Type'' ''text/plain; charset=utf-8''
                              (header (client_view w))),
                 wroteHeader := True, status := code,
                 written := (if bodyAllowedForStatus code
                             then written (client_view w) @ msg @ [CHR 0x0A]
                             else written (client_view w))\<rparr>"
proof -
  let ?w0 = "Header_Set ''X-Content-Type-Options'' ''nosniff''
               (Header_Set ''Content-Type'' ''text/plain; charset=utf-8'' w)"
  have v0: "client_view ?w0 =
      (client_view w)\<lparr>header := AList.update ''X-Content-Type-Options'' ''nosniff''
                            (AList.update ''Content-Type'' ''text/plain; charset=utf-8''
                              (header (client_view w)))\<rparr>"
    using assms(1) by (simp add: client_view_Header_Set)
  have "WriteHeader code ?w0 \<noteq> None"
    using assms(2) by (auto simp: WriteHeader_None_iff)
  then obtain w1 where w1: "WriteHeader code ?w0 = Some w1" by auto
  have v1: "client_view w1 = (client_view ?w0)\<lparr>wroteHeader := True, status := code\<rparr>"
    using client_view_WriteHeader [OF w1] assms v0
    by (auto simp: StatusSwitchingProtocols_def)
  obtain w2 where w2: "Write (msg @ [CHR 0x0A]) w1 = Some w2"
    using Write_not_None [of "msg @ [CHR 0x0A]" w1] by auto
  have "http_Error w msg code = Some w2"
    by (simp add: http_Error_def w1 w2)
  moreover have "client_view w2 =
      (client_view w)
        \<lparr>header := AList.update ''X-Content-Type-Options'' ''nosniff''
                    (AList.update ''Content-Type'' ''text/plain; charset=utf-8''
                      (header (client_view w))),
         wroteHeader := True, status := code,
         written := (if bodyAllowedForStatus code
                     then written (client_view w) @ msg @ [CHR 0x0A]
                     else written (client_view w))\<rparr>"
    using client_view_Write [OF w2] v1 v0 by (simp add: Let_def)
  ultimately show ?thesis by blast
qed

lemma http_Error_panics:
  assumes "\<not> wroteHeader (client_view w)" and "code < 100 \<or> code > 999"
  shows "http_Error w msg code = None"
proof -
  have "WriteHeader code (Header_Set ''X-Content-Type-Options'' ''nosniff''
               (Header_Set ''Content-Type'' ''text/plain; charset=utf-8'' w)) = None"
    using assms by (simp add: WriteHeader_None_iff client_view_Header_Set)
  then show ?thesis by (simp add: http_Error_def)
qed

lemma reply_Error_keeps:
  "out_log (reply_Error res w msg code) = out_log res"
  "out_deviceRequest (reply_Error res w msg code) = out_deviceRequest res"
  "out_wrpRequest (reply_Error res w msg code) = out_wrpRequest res"
  "out_postReq (reply_Error res w msg code) = out_postReq res"
  "out_resp (reply_Error res w msg code) = out_resp res"
  "out_decoded (reply_Error res w msg code) = out_decoded res"
  by (simp_all add: reply_Error_def split: option.splits)

lemma reply_Error_final:
  assumes "\<not> wroteHeader (client_view w)"
      and "code = 101 \<or> 200 \<le> code \<and> code \<le> 999"
  shows "client_view (out_writer (reply_Error res w msg code)) =
           (client_view w)
             \<lparr>header := AList.update ''X-Content-Type-Options'' ''nosniff''
                         (AList.update ''Content-Type'' ''text/plain; charset=utf-8''
                           (header (client_view w))),
              wroteHeader := True, status := code,
              written := (if bodyAllowedForStatus code
                          then written (client_view w) @ msg @ [CHR 0x0A]
                          else written (client_view w))\<rparr>"
    and "out_panicked (reply_Error res w msg code) = out_panicked res"
  using http_Error_final [OF assms, of msg] by (auto simp: reply_Error_def)

section \<open>Facts about the stages of the handler\<close>

text \<open>The assignment of line 87 is never reached with a nil map.\<close>

lemma set_request_id_no_panic: "set_request_id requestID m \<noteq> None"
  by (cases m)
    (auto simp: set_request_id_def map_index_def split: prod.splits option.splits any.splits)

lemma set_request_id_injects:
  assumes "map_of kvs ''jsonrpc'' = Some (GoString v)"
      and "\<not> (\<exists>s. s \<noteq> [] \<and> map_of kvs ''id'' = Some (GoString s))"
  shows "set_request_id requestID (Some kvs) =
           Some (Some (AList.update ''id'' (GoString requestID) kvs))"
proof (cases "assert_string (map_index (Some kvs) ''id'')")
  case (Pair s ok)
  have "\<not> ok \<or> s = []"
  proof (cases "map_of kvs ''id''")
    case None
    with Pair show ?thesis by (simp add: map_index_def)
  next
    case (Some x)
    with Pair assms(2) show ?thesis by (cases x) (auto simp: map_index_def)
  qed
  with Pair assms(1) show ?thesis
    by (auto simp: set_request_id_def map_index_def)
qed

lemma set_request_id_keeps:
  assumes "\<not> (\<exists>v. map_of kvs ''jsonrpc'' = Some (GoString v))"
  shows "set_request_id requestID (Some kvs) = Some (Some kvs)"
proof -
  have "snd (assert_string (map_index (Some kvs) ''jsonrpc'')) = False"
  proof (cases "map_of kvs ''jsonrpc''")
    case None
    then show ?thesis by (simp add: map_index_def)
  next
    case (Some x)
    with assms show ?thesis by (cases x) (auto simp: map_index_def)
  qed
  then show ?thesis by (simp add: set_request_id_def)
qed

lemma translate_reply_keeps:
  "out_deviceRequest (translate_reply W w resp res) = out_deviceRequest res"
  "out_wrpRequest (translate_reply W w resp res) = out_wrpRequest res"
  "out_postReq (translate_reply W w resp res) = out_postReq res"
  "out_resp (translate_reply W w resp res) = out_resp res"
  by (simp_all add: translate_reply_def reply_Error_keeps Let_def split: option.splits)

lemma forward_deviceRequest:
  "out_deviceRequest (forward W u w deviceID service requestID m) = Some m"
  by (simp add: forward_def returned_def Let_def translate_reply_keeps reply_Error_keeps
        split: option.splits)

lemma forward_wrpRequest:
  "out_wrpRequest (forward W u w deviceID service requestID m) =
     map_option
       (\<lambda>wrpPayload.
          \<lparr>Type = SimpleRequestResponseMessageType,
           Source = ''scytale2parodus'',
           Destination = ''mac:'' @ deviceID @ ''/'' @ service,
           ContentType = ''application/json'',
           TransactionUUID = requestID,
           Payload = wrpPayload\<rparr>)
       (json_Marshal W m)"
  by (simp add: forward_def returned_def Let_def translate_reply_keeps reply_Error_keeps
        split: option.splits)

lemma PostCallHandler_forward:
  assumes "deviceIdRegex_MatchString (vars_deviceID r)"
      and "ReadAll_LimitReader r = Some body"
      and "json_Unmarshal W body = Some m"
      and "set_request_id (uuid_New_String W) m = Some m'"
  shows "PostCallHandler W u w r =
           forward W u w (vars_deviceID r) (vars_service r) (uuid_New_String W) m'"
  using assms by (simp add: PostCallHandler_def)

text \<open>A run that holds a reply of the backend ends in the translation of that reply.\<close>

lemma forward_reply:
  assumes "out_resp (forward W u w deviceID service requestID m) = Some resp"
  shows "\<exists>res0. forward W u w deviceID service requestID m = translate_reply W w resp res0
          \<and> \<not> out_decoded res0 \<and> \<not> out_panicked res0 \<and> out_postReq res0 \<noteq> None"
  using assms
  by (auto simp: forward_def returned_def Let_def translate_reply_keeps reply_Error_keeps
        split: option.splits)

lemma PostCallHandler_reply:
  assumes "out_resp (PostCallHandler W u w r) = Some resp"
  shows "\<exists>res0. PostCallHandler W u w r = translate_reply W w resp res0
          \<and> \<not> out_decoded res0 \<and> \<not> out_panicked res0 \<and> out_postReq res0 \<noteq> None"
  using assms forward_reply
  by (auto simp: PostCallHandler_def returned_def Let_def reply_Error_keeps
        split: option.splits if_splits)

section \<open>The metrics wrapper does not show to the client\<close>

text \<open>
  What the client is sent depends on the writer only through the connection underneath: two
  writers over the same reply give the same reply, and a run on a \<^verbatim>\<open>responseWriter\<close> hands
  back a \<^verbatim>\<open>responseWriter\<close>.
\<close>

lemma http_Error_view:
  assumes "client_view w = client_view v"
  shows "map_option client_view (http_Error w msg code) =
         map_option client_view (http_Error v msg code)"
proof -
  let ?h = "\<lambda>w. Header_Set ''X-Content-Type-Options'' ''nosniff''
               (Header_Set ''Content-Type'' ''text/plain; charset=utf-8'' w)"
  have h: "client_view (?h w) = client_view (?h v)"
    using assms by (simp add: client_view_Header_Set)
  show ?thesis
  proof (cases "WriteHeader code (?h w)")
    case None
    then have "WriteHeader code (?h v) = None"
      using h by (simp add: WriteHeader_None_iff)
    with None show ?thesis by (simp add: http_Error_def)
  next
    case (Some w1)
    then have "WriteHeader code (?h v) \<noteq> None"
      using h WriteHeader_None_iff [of code "?h w"] WriteHeader_None_iff [of code "?h v"]
      by auto
    then obtain v1 where v1: "WriteHeader code (?h v) = Some v1" by auto
    have e1: "client_view w1 = client_view v1"
      using client_view_WriteHeader [OF Some] client_view_WriteHeader [OF v1] h by simp
    obtain w2 where w2: "Write (msg @ [CHR 0x0A]) w1 = Some w2"
      using Write_not_None [of "msg @ [CHR 0x0A]" w1] by auto
    obtain v2 where v2: "Write (msg @ [CHR 0x0A]) v1 = Some v2"
      using Write_not_None [of "msg @ [CHR 0x0A]" v1] by auto
    have "client_view w2 = client_view v2"
      using client_view_Write [OF w2] client_view_Write [OF v2] e1 by simp
    then show ?thesis
      by (simp add: http_Error_def Some v1 w2 v2)
  qed
qed

lemma reply_Error_view:
  assumes "client_view w = client_view v"
      and "client_view (out_writer res) = client_view (out_writer res')"
  shows "client_view (out_writer (reply_Error res w msg code)) =
         client_view (out_writer (reply_Error res' v msg code))"
  using http_Error_view [OF assms(1), of msg code] assms(2)
  by (auto simp: reply_Error_def split: option.splits)

lemma translate_reply_view:
  assumes "client_view w = client_view v"
      and "client_view (out_writer res) = client_view (out_writer res')"
  shows "client_view (out_writer (translate_reply W w resp res)) =
         client_view (out_writer (translate_reply W v resp res'))"
proof -
  have wr: "client_view (out_writer
        (case Write b (Header_Set k x w) of None \<Rightarrow> a\<lparr>out_panicked := True\<rparr>
         | Some w2 \<Rightarrow> if Write_err b (Header_Set k x w) then a\<lparr>out_writer := w2, out_log := l\<rparr>
                      else a\<lparr>out_writer := w2\<rparr>)) =
      client_view (out_writer
        (case Write b (Header_Set k x v) of None \<Rightarrow> a'\<lparr>out_panicked := True\<rparr>
         | Some w2 \<Rightarrow> if Write_err b (Header_Set k x v) then a'\<lparr>out_writer := w2, out_log := l'\<rparr>
                      else a'\<lparr>out_writer := w2\<rparr>))" for b k x a a' l l'
  proof -
    obtain w2 where w2: "Write b (Header_Set k x w) = Some w2"
      using Write_not_None [of b "Header_Set k x w"] by auto
    obtain v2 where v2: "Write b (Header_Set k x v) = Some v2"
      using Write_not_None [of b "Header_Set k x v"] by auto
    have "client_view w2 = client_view v2"
      using client_view_Write [OF w2] client_view_Write [OF v2] assms(1)
      by (simp add: client_view_Header_Set)
    then show ?thesis by (simp add: w2 v2)
  qed
  show ?thesis
    using assms
    by (auto simp: translate_reply_def Let_def wr split: option.splits
          intro!: reply_Error_view)
qed

lemma forward_view:
  assumes "client_view w = client_view v"
  shows "client_view (out_writer (forward W u w d s i m)) =
         client_view (out_writer (forward W u v d s i m))"
  using assms
  by (auto simp: forward_def Let_def returned_def split: option.splits
        intro!: reply_Error_view translate_reply_view)

lemma PostCallHandler_view:
  assumes "client_view w = client_view v"
  shows "client_view (out_writer (PostCallHandler W u w r)) =
         client_view (out_writer (PostCallHandler W u v r))"
  using assms
  by (auto simp: PostCallHandler_def Let_def returned_def split: option.splits
        intro!: reply_Error_view forward_view)

lemma rateLimitMiddleware_view:
  assumes "client_view w = client_view v"
  shows "client_view (out_writer (rateLimitMiddleware W (PostCallHandler W' u) w r)) =
         client_view (out_writer (rateLimitMiddleware W (PostCallHandler W' u) v r))"
  using assms
  by (auto simp: rateLimitMiddleware_def returned_def split: option.splits
        intro!: reply_Error_view PostCallHandler_view)

lemma Header_Set_shape:
  "\<exists>w'. Header_Set k v (responseWriter w sc) = responseWriter w' sc"
  by simp

lemma WriteHeader_shape:
  "WriteHeader code (responseWriter w sc) = Some x \<Longrightarrow> \<exists>w'. x = responseWriter w' code"
  by (auto split: option.splits)

lemma Write_shape:
  "Write b (responseWriter w sc) = Some x \<Longrightarrow> \<exists>w' sc'. x = responseWriter w' sc'"
  by (auto split: option.splits if_splits)

lemma http_Error_shape:
  "http_Error (responseWriter w sc) msg code = Some x \<Longrightarrow> \<exists>w' sc'. x = responseWriter w' sc'"
  by (auto simp: http_Error_def split: option.splits if_splits)

lemma reply_Error_shape:
  assumes "\<exists>a b. out_writer res = responseWriter a b"
  shows "\<exists>w' sc'. out_writer (reply_Error res (responseWriter w sc) msg code) = responseWriter w' sc'"
  using assms http_Error_shape [of w sc msg code]
  by (auto simp: reply_Error_def split: option.splits)

lemma translate_reply_shape:
  assumes "\<exists>a b. out_writer res = responseWriter a b"
  shows "\<exists>w' sc'. out_writer (translate_reply W (responseWriter w sc) resp res) = responseWriter w' sc'"
proof -
  have wr: "\<exists>w' sc'. x = responseWriter w' sc'"
    if "Write b (Header_Set k v (responseWriter w sc)) = Some x" for b k v x
    using that Write_shape by simp
  show ?thesis
    using assms
    by (auto simp: translate_reply_def Let_def split: option.splits
          intro!: reply_Error_shape dest: wr)
qed

lemma forward_shape:
  "\<exists>w' sc'. out_writer (forward W u (responseWriter w sc) d s i m) = responseWriter w' sc'"
  by (auto simp: forward_def Let_def returned_def split: option.splits
        intro!: reply_Error_shape translate_reply_shape)

lemma PostCallHandler_shape:
  "\<exists>w' sc'. out_writer (PostCallHandler W u (responseWriter w sc) r) = responseWriter w' sc'"
  by (auto simp: PostCallHandler_def Let_def returned_def split: option.splits
        intro!: reply_Error_shape forward_shape)

lemma rateLimitMiddleware_shape:
  "\<exists>w' sc'. out_writer (rateLimitMiddleware W (PostCallHandler W' u) (responseWriter w sc) r)
      = responseWriter w' sc'"
  by (auto simp: rateLimitMiddleware_def returned_def split: option.splits
        intro!: reply_Error_shape PostCallHandler_shape)

lemma send_route_client_view:
  "client_view (out_writer (fst (send_route W u rnd seconds M w r))) =
   client_view (out_writer (rateLimitMiddleware W (PostCallHandler W u) w r))"
proof -
  obtain w' sc' where shape:
    "out_writer (rateLimitMiddleware W (PostCallHandler W u) (responseWriter w StatusOK) r)
      = responseWriter w' sc'"
    using rateLimitMiddleware_shape by blast
  have "client_view (out_writer (fst (send_route W u rnd seconds M w r))) = client_view w'"
    by (simp add: send_route_def metricsMiddleware_def Let_def shape)
  also have "\<dots> = client_view
      (out_writer (rateLimitMiddleware W (PostCallHandler W u) (responseWriter w StatusOK) r))"
    by (simp add: shape)
  also have "\<dots> = client_view (out_writer (rateLimitMiddleware W (PostCallHandler W u) w r))"
    by (rule rateLimitMiddleware_view) simp
  finally show ?thesis .
qed

lemmas example_defs =
  example_uuid_def example_decode_def example_Marshal_def example_Encode_def example_Decode_def
  example_world_def example_server_def example_request_def example_request_ff_def example_ok_def
  example_empty_def example_garbled_def example_101_def example_099_def example_500_def
  example_metrics_def

lemmas handler_defs =
  PostCallHandler_def forward_def translate_reply_def reply_Error_def returned_def
  json_Unmarshal_def set_request_id_def map_index_def ReadAll_LimitReader_def MaxBodySize_def
  deviceIdRegex_MatchString_def hex_class_def http_NewRequest_def req_Header_Set_def
  http_Error_def bodyAllowedForStatus_def no_reply_def Let_def

lemmas status_defs =
  StatusSwitchingProtocols_def StatusOK_def StatusNoContent_def StatusNotModified_def
  StatusBadRequest_def StatusTooManyRequests_def StatusInternalServerError_def
  StatusBadGateway_def StatusServiceUnavailable_def SimpleRequestResponseMessageType_def

section \<open>The claims\<close>

subsection \<open>Identifier injection\<close>

text \<open>
  Claim C1. A request with a well-formed device id whose body is a JSON object with a string
  under \<^verbatim>\<open>jsonrpc\<close> and with \<^verbatim>\<open>id\<close> absent or the empty string: the handler stores the one
  generated correlator under \<^verbatim>\<open>id\<close> and changes no other key, and the envelope, which is
  built exactly when the changed object serializes, carries that same correlator as its
  \<^verbatim>\<open>TransactionUUID\<close> and the serialized changed object as its payload.
\<close>

theorem jsonrpc_id_is_TransactionUUID:
  assumes "deviceIdRegex_MatchString (vars_deviceID r)"
      and "ReadAll_LimitReader r = Some body"
      and "json_decode W body = Some (GoMap kvs)"
      and "map_of kvs ''jsonrpc'' = Some (GoString v)"
      and "map_of kvs ''id'' = None \<or> map_of kvs ''id'' = Some (GoString '''')"
  shows "\<exists>kvs'. out_deviceRequest (PostCallHandler W u w r) = Some (Some kvs')
           \<and> map_of kvs' = (map_of kvs)(''id'' \<mapsto> GoString (uuid_New_String W))
           \<and> out_wrpRequest (PostCallHandler W u w r) =
               map_option
                 (\<lambda>wrpPayload.
                    \<lparr>Type = SimpleRequestResponseMessageType,
                     Source = ''scytale2parodus'',
                     Destination = ''mac:'' @ vars_deviceID r @ ''/'' @ vars_service r,
                     ContentType = ''application/json'',
                     TransactionUUID = uuid_New_String W,
                     Payload = wrpPayload\<rparr>)
                 (json_Marshal W (Some kvs'))"
proof -
  let ?kvs = "AList.update ''id'' (GoString (uuid_New_String W)) kvs"
  have un: "json_Unmarshal W body = Some (Some kvs)"
    using assms(3) by (simp add: json_Unmarshal_def)
  have "\<not> (\<exists>s. s \<noteq> [] \<and> map_of kvs ''id'' = Some (GoString s))"
    using assms(5) by auto
  with assms(4) have "set_request_id (uuid_New_String W) (Some kvs) = Some (Some ?kvs)"
    by (rule set_request_id_injects)
  with assms(1,2) un have run: "PostCallHandler W u w r =
      forward W u w (vars_deviceID r) (vars_service r) (uuid_New_String W) (Some ?kvs)"
    by (rule PostCallHandler_forward)
  have "out_deviceRequest (PostCallHandler W u w r) = Some (Some ?kvs)"
    by (simp add: run forward_deviceRequest)
  moreover have "map_of ?kvs = (map_of kvs)(''id'' \<mapsto> GoString (uuid_New_String W))"
    by (simp add: update_conv')
  moreover note forward_wrpRequest [of W u w "vars_deviceID r" "vars_service r"
      "uuid_New_String W" "Some ?kvs", folded run]
  ultimately show ?thesis by blast
qed

theorem jsonrpc_id_is_TransactionUUID_witness:
  \<open>deviceIdRegex_MatchString ''001122334455''
   \<and> out_deviceRequest
       (PostCallHandler (example_world None) example_server (Conn no_reply)
          (example_request ''001122334455'' ''{"jsonrpc":"2.0","method":"x"}'')) =
       Some (Some [(''jsonrpc'', GoString ''2.0''), (''method'', GoString ''x''),
                   (''id'', GoString ''6ba7b810-9dad-41d1-80b4-00c04fd430c8'')])
   \<and> out_wrpRequest
       (PostCallHandler (example_world None) example_server (Conn no_reply)
          (example_request ''001122334455'' ''{"jsonrpc":"2.0","method":"x"}'')) =
       Some \<lparr>Type = 3, Source = ''scytale2parodus'', Destination = ''mac:001122334455/Tasker'',
             ContentType = ''application/json'',
             TransactionUUID = ''6ba7b810-9dad-41d1-80b4-00c04fd430c8'',
             Payload =
               ''{"id":"6ba7b810-9dad-41d1-80b4-00c04fd430c8","jsonrpc":"2.0","method":"x"}''\<rparr>\<close>
proof -
  let ?r = \<open>example_request ''001122334455'' ''{"jsonrpc":"2.0","method":"x"}''\<close>
  let ?kvs = "[(''jsonrpc'', GoString ''2.0''), (''method'', GoString ''x'')]"
  have a: "deviceIdRegex_MatchString (vars_deviceID ?r)"
    by (simp add: example_request_def deviceIdRegex_MatchString_def hex_class_def)
  have b: \<open>ReadAll_LimitReader ?r = Some ''{"jsonrpc":"2.0","method":"x"}''\<close>
    by (simp add: example_request_def ReadAll_LimitReader_def MaxBodySize_def)
  have c: \<open>json_decode (example_world None) ''{"jsonrpc":"2.0","method":"x"}'' = Some (GoMap ?kvs)\<close>
    by (simp add: example_world_def example_decode_def)
  have d: "map_of ?kvs ''jsonrpc'' = Some (GoString ''2.0'')"
    by simp
  have e: "map_of ?kvs ''id'' = None \<or> map_of ?kvs ''id'' = Some (GoString '''')"
    by simp
  from jsonrpc_id_is_TransactionUUID [OF a b c d e, of example_server "Conn no_reply"] a
  show ?thesis
    by (simp add: handler_defs example_defs status_defs)
qed

text \<open>
  Claim C2 says that an \<^verbatim>\<open>id\<close> that is present, not empty and not a string is left
  untouched, so that the payload carries the original value. The code at the body
  \<^verbatim>\<open>{"jsonrpc":"2.0","id":7}\<close>: the assertion \<^verbatim>\<open>.(string)\<close> of line 86 fails on the number,
  \<^verbatim>\<open>!ok\<close> holds, and line 87 replaces the number by the correlator; the payload carries the
  correlator.
\<close>

theorem numeric_id_is_replaced:
  \<open>json_decode (example_world None) ''{"jsonrpc":"2.0","id":7}'' =
     Some (GoMap [(''jsonrpc'', GoString ''2.0''), (''id'', GoFloat64 7)])
   \<and> out_deviceRequest
       (PostCallHandler (example_world None) example_server (Conn no_reply)
          (example_request ''001122334455'' ''{"jsonrpc":"2.0","id":7}'')) =
       Some (Some [(''jsonrpc'', GoString ''2.0''),
                   (''id'', GoString ''6ba7b810-9dad-41d1-80b4-00c04fd430c8'')])
   \<and> out_wrpRequest
       (PostCallHandler (example_world None) example_server (Conn no_reply)
          (example_request ''001122334455'' ''{"jsonrpc":"2.0","id":7}'')) =
       Some \<lparr>Type = 3, Source = ''scytale2parodus'', Destination = ''mac:001122334455/Tasker'',
             ContentType = ''application/json'',
             TransactionUUID = ''6ba7b810-9dad-41d1-80b4-00c04fd430c8'',
             Payload = ''{"id":"6ba7b810-9dad-41d1-80b4-00c04fd430c8","jsonrpc":"2.0"}''\<rparr>\<close>
  by (simp add: handler_defs example_defs status_defs)

text \<open>
  The extent of it: under a string \<^verbatim>\<open>jsonrpc\<close>, every \<^verbatim>\<open>id\<close> that is not a string (a number,
  a boolean, null, an array, an object) is replaced by the correlator; an \<^verbatim>\<open>id\<close> that is a
  string and not empty is the only one that is kept.
\<close>

lemma nonstring_id_is_replaced:
  assumes "deviceIdRegex_MatchString (vars_deviceID r)"
      and "ReadAll_LimitReader r = Some body"
      and "json_decode W body = Some (GoMap kvs)"
      and "map_of kvs ''jsonrpc'' = Some (GoString v)"
      and "map_of kvs ''id'' = Some x"
      and "\<not> (\<exists>s. x = GoString s)"
  shows "\<exists>kvs'. out_deviceRequest (PostCallHandler W u w r) = Some (Some kvs')
           \<and> map_of kvs' = (map_of kvs)(''id'' \<mapsto> GoString (uuid_New_String W))
           \<and> map_of kvs' ''id'' \<noteq> Some x"
proof -
  let ?kvs = "AList.update ''id'' (GoString (uuid_New_String W)) kvs"
  have un: "json_Unmarshal W body = Some (Some kvs)"
    using assms(3) by (simp add: json_Unmarshal_def)
  have "\<not> (\<exists>s. s \<noteq> [] \<and> map_of kvs ''id'' = Some (GoString s))"
    using assms(5,6) by auto
  with assms(4) have "set_request_id (uuid_New_String W) (Some kvs) = Some (Some ?kvs)"
    by (rule set_request_id_injects)
  with assms(1,2) un have run: "PostCallHandler W u w r =
      forward W u w (vars_deviceID r) (vars_service r) (uuid_New_String W) (Some ?kvs)"
    by (rule PostCallHandler_forward)
  have "out_deviceRequest (PostCallHandler W u w r) = Some (Some ?kvs)"
    by (simp add: run forward_deviceRequest)
  moreover have "map_of ?kvs = (map_of kvs)(''id'' \<mapsto> GoString (uuid_New_String W))"
    by (simp add: update_conv')
  moreover have "map_of ?kvs ''id'' \<noteq> Some x"
    using assms(6) by (auto simp: update_conv')
  ultimately show ?thesis by blast
qed

lemma nonempty_string_id_is_kept:
  assumes "deviceIdRegex_MatchString (vars_deviceID r)"
      and "ReadAll_LimitReader r = Some body"
      and "json_decode W body = Some (GoMap kvs)"
      and "map_of kvs ''id'' = Some (GoString s)"
      and "s \<noteq> []"
  shows "out_deviceRequest (PostCallHandler W u w r) = Some (Some kvs)"
proof -
  have un: "json_Unmarshal W body = Some (Some kvs)"
    using assms(3) by (simp add: json_Unmarshal_def)
  have "set_request_id (uuid_New_String W) (Some kvs) = Some (Some kvs)"
    using assms(4,5) by (simp add: set_request_id_def map_index_def)
  with assms(1,2) un have "PostCallHandler W u w r =
      forward W u w (vars_deviceID r) (vars_service r) (uuid_New_String W) (Some kvs)"
    by (rule PostCallHandler_forward)
  then show ?thesis
    by (simp add: forward_deviceRequest)
qed

text \<open>
  Claim C8. A request with a well-formed device id whose body is a JSON object without a
  string under \<^verbatim>\<open>jsonrpc\<close> (the key absent, or its value not a string), whatever its \<^verbatim>\<open>id\<close>:
  the object is left as parsed, and the envelope's payload is the serialization of the
  parsed object.
\<close>

theorem non_jsonrpc_body_unchanged:
  assumes "deviceIdRegex_MatchString (vars_deviceID r)"
      and "ReadAll_LimitReader r = Some body"
      and "json_decode W body = Some (GoMap kvs)"
      and "\<not> (\<exists>v. map_of kvs ''jsonrpc'' = Some (GoString v))"
  shows "out_deviceRequest (PostCallHandler W u w r) = Some (Some kvs)
       \<and> out_wrpRequest (PostCallHandler W u w r) =
           map_option
             (\<lambda>wrpPayload.
                \<lparr>Type = SimpleRequestResponseMessageType,
                 Source = ''scytale2parodus'',
                 Destination = ''mac:'' @ vars_deviceID r @ ''/'' @ vars_service r,
                 ContentType = ''application/json'',
                 TransactionUUID = uuid_New_String W,
                 Payload = wrpPayload\<rparr>)
             (json_Marshal W (Some kvs))"
proof -
  have un: "json_Unmarshal W body = Some (Some kvs)"
    using assms(3) by (simp add: json_Unmarshal_def)
  have "set_request_id (uuid_New_String W) (Some kvs) = Some (Some kvs)"
    using assms(4) by (rule set_request_id_keeps)
  with assms(1,2) un have run: "PostCallHandler W u w r =
      forward W u w (vars_deviceID r) (vars_service r) (uuid_New_String W) (Some kvs)"
    by (rule PostCallHandler_forward)
  show ?thesis
    by (simp add: run forward_deviceRequest forward_wrpRequest)
qed

theorem non_jsonrpc_body_unchanged_witness:
  \<open>deviceIdRegex_MatchString ''001122334455''
   \<and> \<not> (\<exists>v. map_of [(''method'', GoString ''x'')] ''jsonrpc'' = Some (GoString v))
   \<and> out_deviceRequest
       (PostCallHandler (example_world None) example_server (Conn no_reply)
          (example_request ''001122334455'' ''{"method":"x"}'')) =
       Some (Some [(''method'', GoString ''x'')])
   \<and> out_wrpRequest
       (PostCallHandler (example_world None) example_server (Conn no_reply)
          (example_request ''001122334455'' ''{"method":"x"}'')) =
       Some \<lparr>Type = 3, Source = ''scytale2parodus'', Destination = ''mac:001122334455/Tasker'',
             ContentType = ''application/json'',
             TransactionUUID = ''6ba7b810-9dad-41d1-80b4-00c04fd430c8'',
             Payload = ''{"method":"x"}''\<rparr>\<close>
proof -
  let ?r = \<open>example_request ''001122334455'' ''{"method":"x"}''\<close>
  let ?kvs = "[(''method'', GoString ''x'')]"
  have a: "deviceIdRegex_MatchString (vars_deviceID ?r)"
    by (simp add: example_request_def deviceIdRegex_MatchString_def hex_class_def)
  have b: \<open>ReadAll_LimitReader ?r = Some ''{"method":"x"}''\<close>
    by (simp add: example_request_def ReadAll_LimitReader_def MaxBodySize_def)
  have c: \<open>json_decode (example_world None) ''{"method":"x"}'' = Some (GoMap ?kvs)\<close>
    by (simp add: example_world_def example_decode_def)
  have d: "\<not> (\<exists>v. map_of ?kvs ''jsonrpc'' = Some (GoString v))"
    by simp
  from non_jsonrpc_body_unchanged [OF a b c d, of example_server "Conn no_reply"] a d
  show ?thesis
    by (simp add: handler_defs example_defs status_defs)
qed

subsection \<open>Validation of the request\<close>

text \<open>
  Claim C3. When the \<^verbatim>\<open>deviceID\<close> of the path is not exactly twelve hexadecimal characters,
  the handler answers 400 whatever the body is (the body is not read), builds no envelope
  and makes no call to the backend.
\<close>

theorem invalid_deviceID_rejected:
  assumes "\<not> deviceIdRegex_MatchString (vars_deviceID r)"
      and "\<not> wroteHeader (client_view w)"
  shows "status (client_view (out_writer (PostCallHandler W u w r))) = 400
       \<and> out_deviceRequest (PostCallHandler W u w r) = None
       \<and> out_wrpRequest (PostCallHandler W u w r) = None
       \<and> out_postReq (PostCallHandler W u w r) = None
       \<and> PostCallHandler W u w (r\<lparr>Body := b, Body_fails := f\<rparr>) = PostCallHandler W u w r"
  using assms
  by (simp add: PostCallHandler_def returned_def reply_Error_final reply_Error_keeps StatusBadRequest_def)

theorem invalid_deviceID_rejected_witness:
  \<open>\<not> deviceIdRegex_MatchString ''00:11:22:33:44:55''
   \<and> \<not> wroteHeader (client_view (Conn no_reply))
   \<and> status (client_view (out_writer
        (PostCallHandler (example_world (Some example_ok)) example_server (Conn no_reply)
           (example_request ''00:11:22:33:44:55'' ''{"method":"x"}'')))) = 400
   \<and> out_postReq
        (PostCallHandler (example_world (Some example_ok)) example_server (Conn no_reply)
           (example_request ''00:11:22:33:44:55'' ''{"method":"x"}'')) = None\<close>
proof -
  let ?r = \<open>example_request ''00:11:22:33:44:55'' ''{"method":"x"}''\<close>
  have a: "\<not> deviceIdRegex_MatchString (vars_deviceID ?r)"
    by (simp add: example_request_def deviceIdRegex_MatchString_def)
  have b: "\<not> wroteHeader (client_view (Conn no_reply))"
    by (simp add: no_reply_def)
  from invalid_deviceID_rejected [OF a b, of "example_world (Some example_ok)" example_server]
    a b
  show ?thesis
    by (simp add: example_request_def)
qed

text \<open>
  The same on the whole route, when the limiter admits the request: the client is sent 400.
\<close>

lemma route_rejects_invalid_deviceID:
  assumes "\<not> deviceIdRegex_MatchString (vars_deviceID r)"
      and "limiter_Wait W = None"
      and "\<not> wroteHeader (client_view w)"
  shows "status (client_view (out_writer (fst (send_route W u rnd seconds M w r)))) = 400"
  using assms
  by (simp add: send_route_client_view rateLimitMiddleware_def PostCallHandler_def returned_def
        reply_Error_final reply_Error_keeps StatusBadRequest_def)

text \<open>
  Claim C7 says that every body that is not a JSON object is answered 400 and that no
  envelope is built. The body \<^verbatim>\<open>null\<close> is JSON and is not an object, yet
  \<^verbatim>\<open>json.Unmarshal\<close> into a map accepts it and leaves the map nil: the handler goes on, builds
  an envelope whose payload is \<^verbatim>\<open>null\<close>, posts it, and here answers 200.
\<close>

theorem null_body_is_forwarded:
  \<open>json_decode (example_world (Some example_ok)) ''null'' = Some GoNil
   \<and> out_wrpRequest
       (PostCallHandler (example_world (Some example_ok)) example_server (Conn no_reply)
          (example_request ''001122334455'' ''null'')) =
       Some \<lparr>Type = 3, Source = ''scytale2parodus'', Destination = ''mac:001122334455/Tasker'',
             ContentType = ''application/json'',
             TransactionUUID = ''6ba7b810-9dad-41d1-80b4-00c04fd430c8'',
             Payload = ''null''\<rparr>
   \<and> out_postReq
       (PostCallHandler (example_world (Some example_ok)) example_server (Conn no_reply)
          (example_request ''001122334455'' ''null'')) =
       Some \<lparr>req_Method = ''POST'', req_URL = ''http://scytale:6300/api/v2/device'',
             req_Header =
               [(''Content-Type'', ''application/msgpack''), (''Accept'', ''application/msgpack''),
                (''Authorization'', ''Basic dXNlcjpwYXNz'')],
             req_Body = ''wrp:null''\<rparr>
   \<and> status (client_view (out_writer
        (PostCallHandler (example_world (Some example_ok)) example_server (Conn no_reply)
           (example_request ''001122334455'' ''null'')))) = 200\<close>
  by (simp add: handler_defs example_defs status_defs)

text \<open>
  What does hold around C7: text that is not JSON, and a JSON value that is neither an object
  nor null, are answered 400 with nothing built; a JSON object passes the parse.
\<close>

lemma non_object_non_null_body_rejected:
  assumes "deviceIdRegex_MatchString (vars_deviceID r)"
      and "ReadAll_LimitReader r = Some body"
      and "json_decode W body = None
           \<or> (\<exists>x. json_decode W body = Some x \<and> x \<noteq> GoNil \<and> (\<forall>kvs. x \<noteq> GoMap kvs))"
      and "\<not> wroteHeader (client_view w)"
  shows "status (client_view (out_writer (PostCallHandler W u w r))) = 400
       \<and> written (client_view (out_writer (PostCallHandler W u w r))) =
           written (client_view w) @ ''Failed to parse JSON'' @ [CHR 0x0A]
       \<and> out_deviceRequest (PostCallHandler W u w r) = None
       \<and> out_wrpRequest (PostCallHandler W u w r) = None
       \<and> out_postReq (PostCallHandler W u w r) = None"
proof -
  have "json_Unmarshal W body = None"
    using assms(3) by (auto simp: json_Unmarshal_def split: any.splits)
  with assms(1,2,4) show ?thesis
    by (simp add: PostCallHandler_def returned_def reply_Error_final reply_Error_keeps
          bodyAllowedForStatus_def status_defs)
qed

lemma object_body_passes_parse:
  assumes "deviceIdRegex_MatchString (vars_deviceID r)"
      and "ReadAll_LimitReader r = Some body"
      and "json_decode W body = Some (GoMap kvs)"
  shows "out_deviceRequest (PostCallHandler W u w r) \<noteq> None"
proof -
  have un: "json_Unmarshal W body = Some (Some kvs)"
    using assms(3) by (simp add: json_Unmarshal_def)
  obtain m where "set_request_id (uuid_New_String W) (Some kvs) = Some m"
    using set_request_id_no_panic [of "uuid_New_String W" "Some kvs"] by auto
  with assms(1,2) un have "PostCallHandler W u w r =
      forward W u w (vars_deviceID r) (vars_service r) (uuid_New_String W) m"
    by (rule PostCallHandler_forward)
  then show ?thesis
    by (simp add: forward_deviceRequest)
qed

subsection \<open>Translation of the backend's reply\<close>

text \<open>
  Claim C4 says that every backend status code outside [200,400) is answered with that code
  together with a descriptive message. Status 101 is below 200, so line 142 calls
  \<^verbatim>\<open>http.Error\<close> with it; net/http sends no body with a 1xx status, so the client is sent
  status 101 and no message.
\<close>

theorem status_101_carries_no_message:
  \<open>out_resp
     (PostCallHandler (example_world (Some example_101)) example_server (Conn no_reply)
        (example_request ''001122334455'' ''{"method":"x"}'')) = Some example_101
   \<and> StatusCode example_101 < 200
   \<and> status (client_view (out_writer
        (PostCallHandler (example_world (Some example_101)) example_server (Conn no_reply)
           (example_request ''001122334455'' ''{"method":"x"}'')))) = 101
   \<and> written (client_view (out_writer
        (PostCallHandler (example_world (Some example_101)) example_server (Conn no_reply)
           (example_request ''001122334455'' ''{"method":"x"}'')))) = []\<close>
  by (simp add: handler_defs example_defs status_defs)

text \<open>
  Nor is a code below 100 passed on: there \<^verbatim>\<open>WriteHeader\<close> panics, and the client is sent
  nothing.
\<close>

lemma status_below_100_panics:
  \<open>out_resp
     (PostCallHandler (example_world (Some example_099)) example_server (Conn no_reply)
        (example_request ''001122334455'' ''{"method":"x"}'')) = Some example_099
   \<and> out_panicked
        (PostCallHandler (example_world (Some example_099)) example_server (Conn no_reply)
           (example_request ''001122334455'' ''{"method":"x"}''))
   \<and> sent
        (PostCallHandler (example_world (Some example_099)) example_server (Conn no_reply)
           (example_request ''001122334455'' ''{"method":"x"}'')) = None\<close>
  by (simp add: sent_def handler_defs example_defs status_defs)

text \<open>
  Claim C4, amended. When the backend replies with a status code from 400 to 999, the handler
  answers with that same status code and the message \<^verbatim>\<open>Scytale returned invalid status: \<close>
  followed by the backend's status text, and the decoder is not run on the reply. When the
  backend replies with status 101, the handler answers with status 101 and no message, and the
  decoder is not run.
\<close>

theorem backend_error_status_passed_through:
  assumes "out_resp (PostCallHandler W u w r) = Some resp"
      and "\<not> wroteHeader (client_view w)"
  shows "(400 \<le> StatusCode resp \<and> StatusCode resp \<le> 999 \<longrightarrow>
            status (client_view (out_writer (PostCallHandler W u w r))) = StatusCode resp
          \<and> written (client_view (out_writer (PostCallHandler W u w r))) =
              written (client_view w) @ ''Scytale returned invalid status: '' @ Status resp
                @ [CHR 0x0A]
          \<and> \<not> out_decoded (PostCallHandler W u w r)
          \<and> \<not> out_panicked (PostCallHandler W u w r))
       \<and> (StatusCode resp = 101 \<longrightarrow>
            status (client_view (out_writer (PostCallHandler W u w r))) = 101
          \<and> written (client_view (out_writer (PostCallHandler W u w r))) =
              written (client_view w)
          \<and> \<not> out_decoded (PostCallHandler W u w r)
          \<and> \<not> out_panicked (PostCallHandler W u w r))"
proof -
  from PostCallHandler_reply [OF assms(1)] obtain res0 where
    run: "PostCallHandler W u w r = translate_reply W w resp res0"
    and nd: "\<not> out_decoded res0" and np: "\<not> out_panicked res0"
    by blast
  let ?res = "res0\<lparr>out_log := out_log res0 @ [(ErrorLevel, ''Scytale returned invalid status'')]\<rparr>"
  let ?msg = "''Scytale returned invalid status: '' @ Status resp"
  have hi: ?thesis if c: "400 \<le> StatusCode resp" "StatusCode resp \<le> 999"
  proof -
    have f: "StatusCode resp = 101 \<or> 200 \<le> StatusCode resp \<and> StatusCode resp \<le> 999"
      using c by simp
    have ba: "bodyAllowedForStatus (StatusCode resp)"
      using c by (simp add: bodyAllowedForStatus_def StatusNoContent_def StatusNotModified_def)
    have run': "PostCallHandler W u w r = reply_Error ?res w ?msg (StatusCode resp)"
      using c by (simp add: run translate_reply_def)
    show ?thesis
      using c nd np ba reply_Error_final [OF assms(2) f, of ?res ?msg]
      by (simp add: run' reply_Error_keeps)
  qed
  have lo: ?thesis if c: "StatusCode resp = 101"
  proof -
    have f: "StatusCode resp = 101 \<or> 200 \<le> StatusCode resp \<and> StatusCode resp \<le> 999"
      using c by simp
    have ba: "\<not> bodyAllowedForStatus (StatusCode resp)"
      using c by (simp add: bodyAllowedForStatus_def)
    have run': "PostCallHandler W u w r = reply_Error ?res w ?msg (StatusCode resp)"
      using c by (simp add: run translate_reply_def)
    show ?thesis
      using c nd np ba reply_Error_final [OF assms(2) f, of ?res ?msg]
      by (simp add: run' reply_Error_keeps)
  qed
  show ?thesis
    using hi lo by blast
qed

theorem backend_error_status_passed_through_witness:
  \<open>out_resp
     (PostCallHandler (example_world (Some example_500)) example_server (Conn no_reply)
        (example_request ''001122334455'' ''{"method":"x"}'')) = Some example_500
   \<and> 400 \<le> StatusCode example_500 \<and> StatusCode example_500 \<le> 999
   \<and> \<not> wroteHeader (client_view (Conn no_reply))
   \<and> status (client_view (out_writer
        (PostCallHandler (example_world (Some example_500)) example_server (Conn no_reply)
           (example_request ''001122334455'' ''{"method":"x"}'')))) = 500
   \<and> written (client_view (out_writer
        (PostCallHandler (example_world (Some example_500)) example_server (Conn no_reply)
           (example_request ''001122334455'' ''{"method":"x"}'')))) =
       ''Scytale returned invalid status: 500 Internal Server Error'' @ [CHR 0x0A]
   \<and> out_resp
     (PostCallHandler (example_world (Some example_101)) example_server (Conn no_reply)
        (example_request ''001122334455'' ''{"method":"x"}'')) = Some example_101
   \<and> StatusCode example_101 = 101
   \<and> status (client_view (out_writer
        (PostCallHandler (example_world (Some example_101)) example_server (Conn no_reply)
           (example_request ''001122334455'' ''{"method":"x"}'')))) = 101\<close>
proof -
  let ?H = \<open>\<lambda>reply. PostCallHandler (example_world (Some reply)) example_server (Conn no_reply)
        (example_request ''001122334455'' ''{"method":"x"}'')\<close>
  have a: "out_resp (?H example_500) = Some example_500"
    by (simp add: handler_defs example_defs status_defs)
  have a': "out_resp (?H example_101) = Some example_101"
    by (simp add: handler_defs example_defs status_defs)
  have b: "400 \<le> StatusCode example_500 \<and> StatusCode example_500 \<le> 999"
    by (simp add: example_500_def)
  have b': "StatusCode example_101 = 101"
    by (simp add: example_101_def)
  have c: "\<not> wroteHeader (client_view (Conn no_reply))"
    by (simp add: no_reply_def)
  have "status (client_view (out_writer (?H example_500))) = StatusCode example_500
      \<and> written (client_view (out_writer (?H example_500))) =
          written (client_view (Conn no_reply)) @ ''Scytale returned invalid status: ''
            @ Status example_500 @ [CHR 0x0A]"
    using backend_error_status_passed_through [OF a c] b by blast
  moreover have "status (client_view (out_writer (?H example_101))) = 101"
    using backend_error_status_passed_through [OF a' c] b' by blast
  ultimately show ?thesis
    using a a' b b' c by (simp add: example_500_def no_reply_def)
qed

text \<open>
  Claim C5. When the backend replies with a status code in [200,400) and the reply decodes:
  an empty payload is answered 502; a payload that is not empty is answered 200 with
  content type \<^verbatim>\<open>application/json\<close> and a body that is the payload, byte for byte.
\<close>

theorem decoded_reply_passed_through:
  assumes "out_resp (PostCallHandler W u w r) = Some resp"
      and "200 \<le> StatusCode resp" and "StatusCode resp < 400"
      and "wrp_Decode W (resp_Body resp) = Some wrpResponse"
      and "client_view w = no_reply"
  shows "(Payload wrpResponse = [] \<longrightarrow>
            status (client_view (out_writer (PostCallHandler W u w r))) = 502)
       \<and> (Payload wrpResponse \<noteq> [] \<longrightarrow>
            status (client_view (out_writer (PostCallHandler W u w r))) = 200
          \<and> header (client_view (out_writer (PostCallHandler W u w r))) =
              [(''Content-Type'', ''application/json'')]
          \<and> written (client_view (out_writer (PostCallHandler W u w r))) =
              Payload wrpResponse)"
proof -
  from PostCallHandler_reply [OF assms(1)] obtain res0 where
    run: "PostCallHandler W u w r = translate_reply W w resp res0"
    by blast
  have fresh: "\<not> wroteHeader (client_view w)"
    using assms(5) by (simp add: no_reply_def)
  let ?w1 = "Header_Set ''Content-Type'' ''application/json'' w"
  obtain w2 where w2: "Write (Payload wrpResponse) ?w1 = Some w2"
    using Write_not_None [of "Payload wrpResponse" ?w1] by auto
  have v2: "Payload wrpResponse \<noteq> [] \<Longrightarrow> client_view w2 =
      \<lparr>wroteHeader = True, status = 200, header = [(''Content-Type'', ''application/json'')],
       written = Payload wrpResponse, interim = []\<rparr>"
    using client_view_Write [OF w2] assms(5)
    by (simp add: client_view_Header_Set no_reply_def Let_def bodyAllowedForStatus_def
          status_defs)
  show ?thesis
    using assms(2,3,4) fresh v2
    by (auto simp: run translate_reply_def reply_Error_final reply_Error_keeps w2 Let_def
          StatusBadGateway_def)
qed

theorem decoded_reply_passed_through_witness:
  \<open>out_resp
     (PostCallHandler (example_world (Some example_ok)) example_server (Conn no_reply)
        (example_request ''001122334455'' ''{"method":"x"}'')) = Some example_ok
   \<and> wrp_Decode (example_world (Some example_ok)) (resp_Body example_ok) \<noteq> None
   \<and> status (client_view (out_writer
        (PostCallHandler (example_world (Some example_ok)) example_server (Conn no_reply)
           (example_request ''001122334455'' ''{"method":"x"}'')))) = 200
   \<and> written (client_view (out_writer
        (PostCallHandler (example_world (Some example_ok)) example_server (Conn no_reply)
           (example_request ''001122334455'' ''{"method":"x"}'')))) = ''{"result":1}''
   \<and> out_resp
       (PostCallHandler (example_world (Some example_empty)) example_server (Conn no_reply)
          (example_request ''001122334455'' ''{"method":"x"}'')) = Some example_empty
   \<and> status (client_view (out_writer
        (PostCallHandler (example_world (Some example_empty)) example_server (Conn no_reply)
           (example_request ''001122334455'' ''{"method":"x"}'')))) = 502\<close>
proof -
  let ?r = \<open>example_request ''001122334455'' ''{"method":"x"}''\<close>
  let ?H = "\<lambda>reply. PostCallHandler (example_world (Some reply)) example_server (Conn no_reply) ?r"
  let ?m = "\<lambda>p. \<lparr>Type = SimpleRequestResponseMessageType, Source = ''mac:001122334455/Tasker'',
      Destination = ''scytale2parodus'', ContentType = ''application/json'',
      TransactionUUID = example_uuid, Payload = p\<rparr>"
  have a: "out_resp (?H example_ok) = Some example_ok"
    by (simp add: handler_defs example_defs status_defs)
  have a': "out_resp (?H example_empty) = Some example_empty"
    by (simp add: handler_defs example_defs status_defs)
  have b: "200 \<le> StatusCode example_ok" "StatusCode example_ok < 400"
      "200 \<le> StatusCode example_empty" "StatusCode example_empty < 400"
    by (simp_all add: example_ok_def example_empty_def)
  have c: \<open>wrp_Decode (example_world (Some example_ok)) (resp_Body example_ok) =
      Some (?m ''{"result":1}'')\<close>
    by (simp add: example_world_def example_Decode_def example_ok_def)
  have c': "wrp_Decode (example_world (Some example_empty)) (resp_Body example_empty) =
      Some (?m [])"
    by (simp add: example_world_def example_Decode_def example_empty_def)
  have d: "client_view (Conn no_reply) = no_reply"
    by simp
  from decoded_reply_passed_through [OF a b(1,2) c d]
    decoded_reply_passed_through [OF a' b(3,4) c' d] a a' c
  show ?thesis
    by simp
qed

text \<open>
  Claim C6. When the backend replies with a status code in [200,400) and the reply does not
  decode, the handler answers 400.
\<close>

theorem undecodable_reply_is_400:
  assumes "out_resp (PostCallHandler W u w r) = Some resp"
      and "200 \<le> StatusCode resp" and "StatusCode resp < 400"
      and "wrp_Decode W (resp_Body resp) = None"
      and "\<not> wroteHeader (client_view w)"
  shows "status (client_view (out_writer (PostCallHandler W u w r))) = 400
       \<and> out_decoded (PostCallHandler W u w r)"
proof -
  from PostCallHandler_reply [OF assms(1)] obtain res0 where
    run: "PostCallHandler W u w r = translate_reply W w resp res0"
    by blast
  show ?thesis
    using assms(2,3,4,5)
    by (simp add: run translate_reply_def reply_Error_final reply_Error_keeps StatusBadRequest_def)
qed

theorem undecodable_reply_is_400_witness:
  \<open>out_resp
     (PostCallHandler (example_world (Some example_garbled)) example_server (Conn no_reply)
        (example_request ''001122334455'' ''{"method":"x"}'')) = Some example_garbled
   \<and> wrp_Decode (example_world (Some example_garbled)) (resp_Body example_garbled) = None
   \<and> status (client_view (out_writer
        (PostCallHandler (example_world (Some example_garbled)) example_server (Conn no_reply)
           (example_request ''001122334455'' ''{"method":"x"}'')))) = 400\<close>
proof -
  let ?H = \<open>PostCallHandler (example_world (Some example_garbled)) example_server (Conn no_reply)
        (example_request ''001122334455'' ''{"method":"x"}'')\<close>
  have a: "out_resp ?H = Some example_garbled"
    by (simp add: handler_defs example_defs status_defs)
  have b: "200 \<le> StatusCode example_garbled" "StatusCode example_garbled < 400"
    by (simp_all add: example_garbled_def)
  have c: "wrp_Decode (example_world (Some example_garbled)) (resp_Body example_garbled) = None"
    by (simp add: example_world_def example_Decode_def example_garbled_def)
  have d: "\<not> wroteHeader (client_view (Conn no_reply))"
    by (simp add: no_reply_def)
  from undecodable_reply_is_400 [OF a b c d] a c
  show ?thesis
    by simp
qed

subsection \<open>Admission control and sampling\<close>

text \<open>
  Claim C9. When the wait on the limiter returns an error and the request's context
  reports an error (the request was cancelled before a token was had), the middleware returns
  with nothing written and nothing run; when the wait returns an error and the context
  reports none, the client is answered 429 and the next handler is not run; when the wait
  returns no error, the result is that of the next handler.
\<close>

theorem rate_limit_outcomes:
  "(limiter_Wait W \<noteq> None \<and> ctx_Err W \<noteq> None \<longrightarrow>
      rateLimitMiddleware W next w r = returned w
    \<and> out_writer (rateLimitMiddleware W next w r) = w)
 \<and> (limiter_Wait W \<noteq> None \<and> ctx_Err W = None \<and> \<not> wroteHeader (client_view w) \<longrightarrow>
      status (client_view (out_writer (rateLimitMiddleware W next w r))) = 429
    \<and> written (client_view (out_writer (rateLimitMiddleware W next w r))) =
        written (client_view w) @ ''Too Many Requests'' @ [CHR 0x0A]
    \<and> out_postReq (rateLimitMiddleware W next w r) = None)
 \<and> (limiter_Wait W = None \<longrightarrow> rateLimitMiddleware W next w r = next w r)"
  by (auto simp: rateLimitMiddleware_def returned_def reply_Error_final reply_Error_keeps
        bodyAllowedForStatus_def status_defs split: option.splits)

theorem rate_limit_outcomes_witness:
  \<open>out_writer
     (rateLimitMiddleware
        ((example_world (Some example_ok))
           \<lparr>limiter_Wait := Some ''context canceled'', ctx_Err := Some ''context canceled''\<rparr>)
        (PostCallHandler (example_world (Some example_ok)) example_server)
        (Conn no_reply) (example_request ''001122334455'' ''{"method":"x"}'')) = Conn no_reply
   \<and> status (client_view (out_writer
       (rateLimitMiddleware
          ((example_world (Some example_ok))
             \<lparr>limiter_Wait := Some ''rate: Wait(n=1) would exceed context deadline''\<rparr>)
          (PostCallHandler (example_world (Some example_ok)) example_server)
          (Conn no_reply) (example_request ''001122334455'' ''{"method":"x"}'')))) = 429
   \<and> status (client_view (out_writer
       (rateLimitMiddleware (example_world (Some example_ok))
          (PostCallHandler (example_world (Some example_ok)) example_server)
          (Conn no_reply) (example_request ''001122334455'' ''{"method":"x"}'')))) = 200\<close>
proof -
  let ?W = "example_world (Some example_ok)"
  let ?W1 = "?W\<lparr>limiter_Wait := Some ''context canceled'', ctx_Err := Some ''context canceled''\<rparr>"
  let ?W2 = "?W\<lparr>limiter_Wait := Some ''rate: Wait(n=1) would exceed context deadline''\<rparr>"
  let ?next = "PostCallHandler ?W example_server"
  let ?r = \<open>example_request ''001122334455'' ''{"method":"x"}''\<close>
  have a: "limiter_Wait ?W1 \<noteq> None \<and> ctx_Err ?W1 \<noteq> None"
    by simp
  have b: "limiter_Wait ?W2 \<noteq> None \<and> ctx_Err ?W2 = None
      \<and> \<not> wroteHeader (client_view (Conn no_reply))"
    by (simp add: example_world_def no_reply_def)
  have c: "limiter_Wait ?W = None"
    by (simp add: example_world_def)
  have d: "status (client_view (out_writer (?next (Conn no_reply) ?r))) = 200"
    by (simp add: handler_defs example_defs status_defs)
  have "out_writer (rateLimitMiddleware ?W1 ?next (Conn no_reply) ?r) = Conn no_reply"
    using rate_limit_outcomes [of ?W1 ?next "Conn no_reply" ?r] a by blast
  moreover
  have "status (client_view (out_writer (rateLimitMiddleware ?W2 ?next (Conn no_reply) ?r))) = 429"
    using rate_limit_outcomes [of ?W2 ?next "Conn no_reply" ?r] b by blast
  moreover
  have "rateLimitMiddleware ?W ?next (Conn no_reply) ?r = ?next (Conn no_reply) ?r"
    using rate_limit_outcomes [of ?W ?next "Conn no_reply" ?r] c by blast
  with d have "status (client_view (out_writer
      (rateLimitMiddleware ?W ?next (Conn no_reply) ?r))) = 200"
    by simp
  ultimately show ?thesis
    by blast
qed

text \<open>
  Claim C10 says that the response is the same whether or not the sample is taken. For the
  request \<^verbatim>\<open>POST /api/v1/001122334455/send/%ff\<close> it is not: the decoded path holds the byte
  FF, which is not valid UTF-8; without the sample the client is sent the backend's payload
  with status 200; with the sample, \<^verbatim>\<open>WithLabelValues\<close> on line 147 panics on the path label
  after the handler has returned, the response is never finished, and nothing is recorded.
\<close>

theorem sample_panics_on_invalid_path:
  \<open>sent (fst (send_route (example_world (Some example_ok)) example_server (1 / 2) (1 / 3)
            example_metrics (Conn no_reply) (example_request_ff ''{"method":"x"}''))) =
     Some \<lparr>wroteHeader = True, status = 200,
           header = [(''Content-Type'', ''application/json'')],
           written = ''{"result":1}'', interim = []\<rparr>
   \<and> sent (fst (send_route (example_world (Some example_ok)) example_server (1 / 20) (1 / 4)
            example_metrics (Conn no_reply) (example_request_ff ''{"method":"x"}''))) = None
   \<and> snd (send_route (example_world (Some example_ok)) example_server (1 / 20) (1 / 4)
            example_metrics (Conn no_reply) (example_request_ff ''{"method":"x"}'')) =
       example_metrics\<close>
proof -
  let ?W = "example_world (Some example_ok)"
  let ?next = "rateLimitMiddleware ?W (PostCallHandler ?W example_server)"
  let ?r = \<open>example_request_ff ''{"method":"x"}''\<close>
  have run: "?next (responseWriter (Conn no_reply) StatusOK) ?r =
      \<lparr>out_writer =
         responseWriter
           (Conn \<lparr>wroteHeader = True, status = 200,
                  header = [(''Content-Type'', ''application/json'')],
                  written = ''{\"result\":1}'', interim = []\<rparr>) 200,
       out_log = [(DebugLevel, ''Sending WRP request''), (DebugLevel, ''Received WRP response'')],
       out_deviceRequest = Some (Some [(''method'', GoString ''x'')]),
       out_wrpRequest =
         Some \<lparr>Type = 3, Source = ''scytale2parodus'',
               Destination = ''mac:001122334455/'' @ [CHR 0xFF],
               ContentType = ''application/json'',
               TransactionUUID = ''6ba7b810-9dad-41d1-80b4-00c04fd430c8'',
               Payload = ''{\"method\":\"x\"}''\<rparr>,
       out_postReq =
         Some \<lparr>req_Method = ''POST'', req_URL = ''http://scytale:6300/api/v2/device'',
               req_Header =
                 [(''Content-Type'', ''application/msgpack''), (''Accept'', ''application/msgpack''),
                  (''Authorization'', ''Basic dXNlcjpwYXNz'')],
               req_Body = ''wrp:{\"method\":\"x\"}''\<rparr>,
       out_resp = Some example_ok, out_decoded = True, out_panicked = False\<rparr>"
    by (simp add: rateLimitMiddleware_def handler_defs example_defs status_defs)
  have bad: "\<not> WithLabelValues_ok [''send'', Method ?r, fmt_Sprint 200, URL_Path ?r]"
    by (simp add: WithLabelValues_ok_def example_request_ff_def)
  have "sent (fst (metricsMiddleware ''send'' ?next (1 / 2) (1 / 3) example_metrics
        (Conn no_reply) ?r)) =
      Some \<lparr>wroteHeader = True, status = 200,
            header = [(''Content-Type'', ''application/json'')],
            written = ''{\"result\":1}'', interim = []\<rparr>"
    by (simp add: metricsMiddleware_def Let_def run sent_def finishRequest_def)
  moreover
  have "sent (fst (metricsMiddleware ''send'' ?next (1 / 20) (1 / 4) example_metrics
        (Conn no_reply) ?r)) = None"
    using bad by (simp add: metricsMiddleware_def Let_def run sent_def)
  moreover
  have "snd (metricsMiddleware ''send'' ?next (1 / 20) (1 / 4) example_metrics
        (Conn no_reply) ?r) = example_metrics"
    using bad by (simp add: metricsMiddleware_def Let_def run)
  ultimately show ?thesis
    unfolding send_route_def by blast
qed

text \<open>
  The same with the byte in the device id, \<^verbatim>\<open>POST /api/v1/%ff/send/Tasker\<close>, where the backend
  is not reached: without the sample the client is sent 400, with it nothing.
\<close>

lemma sample_panics_on_invalid_deviceID_path:
  \<open>map_option status
     (sent (fst (send_route (example_world None) example_server (1 / 2) (1 / 3) example_metrics
        (Conn no_reply)
        ((example_request [CHR 0xFF] ''{"method":"x"}'')))))
     = Some 400
   \<and> sent (fst (send_route (example_world None) example_server (1 / 20) (1 / 4) example_metrics
        (Conn no_reply)
        ((example_request [CHR 0xFF] ''{"method":"x"}'')))) = None\<close>
  by (simp add: send_route_def metricsMiddleware_def rateLimitMiddleware_def sent_def
        finishRequest_def WithLabelValues_ok_def handler_defs example_defs status_defs)

text \<open>
  What does hold around C10: when the four label values are valid UTF-8, the result of the
  route does not depend on the sample, the duration or the metrics, and a sample below one
  tenth records one observation and adds one to the counter; a sample of one tenth or more
  never changes the result or the metrics.
\<close>

lemma sampling_with_valid_labels:
  assumes "WithLabelValues_ok
      [handlerName, Method r,
       fmt_Sprint (statusCode (out_writer (next (responseWriter w StatusOK) r))), URL_Path r]"
  shows "fst (metricsMiddleware handlerName next rnd seconds M w r) =
         fst (metricsMiddleware handlerName next rnd' seconds' M' w r)"
    and "rnd < 1 / 10 \<Longrightarrow> \<not> out_panicked (next (responseWriter w StatusOK) r) \<Longrightarrow>
         snd (metricsMiddleware handlerName next rnd seconds M w r) =
           Inc [handlerName, Method r,
                fmt_Sprint (statusCode (out_writer (next (responseWriter w StatusOK) r))),
                URL_Path r]
             (Observe [handlerName, Method r,
                fmt_Sprint (statusCode (out_writer (next (responseWriter w StatusOK) r))),
                URL_Path r] seconds M)"
  using assms by (simp_all add: metricsMiddleware_def Let_def)

lemma unsampled_run_unchanged:
  assumes "\<not> rnd < 1 / 10"
  shows "metricsMiddleware handlerName next rnd seconds M w r =
           ((next (responseWriter w StatusOK) r)
              \<lparr>out_writer := ResponseWriter (out_writer (next (responseWriter w StatusOK) r))\<rparr>,
            M)"
  using assms by (simp add: metricsMiddleware_def Let_def)

end
